theory Spec2Isabelle
  imports Complex_Main "HOL-Library.Word"
begin

unbundle bit_operations_syntax

section \<open>Chip command layer: return codes, link callbacks, baud rate\<close>

text \<open>
  The chip drivers (\<^verbatim>\<open>ch375.c\<close>, \<^verbatim>\<open>ch376s.c\<close>) talk to the controller through
  callbacks stored in the context. A callback gets the platform state, returns a result
  code and leaves a new platform state. The result codes are the enumerators of
  \<^verbatim>\<open>ch376s_ErrNo\<close>; the CH375 driver uses the same names with the prefix
  \<^verbatim>\<open>CH375_\<close>.
\<close>

datatype ch37x_ret =
    CH37X_SUCCESS
  | CH37X_ERROR
  | CH37X_PARAM_INVALID
  | CH37X_WRITE_CMD_FAILED
  | CH37X_READ_DATA_FAILED
  | CH37X_NO_EXIST
  | CH37X_TIMEOUT
  | CH37X_NOT_FOUND

record 'l ch375_Context_t =
  write_cmd :: "'l \<Rightarrow> 8 word \<Rightarrow> ch37x_ret \<times> 'l"
  write_data :: "'l \<Rightarrow> 8 word \<Rightarrow> ch37x_ret \<times> 'l"

record 'l ch376s_Context_t =
  write_byte :: "'l \<Rightarrow> 8 word \<Rightarrow> ch37x_ret \<times> 'l"

text \<open>
  Modelled from the spec: the header \<^verbatim>\<open>ch375.h\<close> that declares
  \<^verbatim>\<open>CH375_CMD_SET_BAUDRATE\<close> is not part of the sources; the opcode table of the
  specification gives SET_BAUD = 0x02, the value \<^verbatim>\<open>ch376s.h\<close> declares for the
  other dialect.
\<close>

definition CH375_CMD_SET_BAUDRATE :: "8 word" where
  "CH375_CMD_SET_BAUDRATE = 0x02"

definition CH376S_CMD_SET_BAUDRATE :: "8 word" where
  "CH376S_CMD_SET_BAUDRATE = 0x02"

text \<open>\<^verbatim>\<open>ch375_writeCmd\<close>, \<^verbatim>\<open>ch375_writeData\<close>: a NULL context is rejected, otherwise the
  callback decides.\<close>

definition ch375_writeCmd :: "'l ch375_Context_t option \<Rightarrow> 8 word \<Rightarrow> 'l \<Rightarrow> ch37x_ret \<times> 'l" where
  "ch375_writeCmd pCtx cmd l =
     (case pCtx of None \<Rightarrow> (CH37X_PARAM_INVALID, l) | Some c \<Rightarrow> write_cmd c l cmd)"

definition ch375_writeData :: "'l ch375_Context_t option \<Rightarrow> 8 word \<Rightarrow> 'l \<Rightarrow> ch37x_ret \<times> 'l" where
  "ch375_writeData pCtx d l =
     (case pCtx of None \<Rightarrow> (CH37X_PARAM_INVALID, l) | Some c \<Rightarrow> write_data c l d)"

definition ch376s_writeByte :: "'l ch376s_Context_t option \<Rightarrow> 8 word \<Rightarrow> 'l \<Rightarrow> ch37x_ret \<times> 'l" where
  "ch376s_writeByte pCtx b l =
     (case pCtx of None \<Rightarrow> (CH37X_PARAM_INVALID, l) | Some c \<Rightarrow> write_byte c l b)"

text \<open>
  The \<^verbatim>\<open>switch (baudrate)\<close> of \<^verbatim>\<open>ch375_setBaudrate\<close> assigns the two coefficient
  bytes. Each case body is a transformer of the pair \<open>(data1, data2)\<close>. The body of
  \<^verbatim>\<open>case 921600\<close> has no \<^verbatim>\<open>break\<close>, so control continues with the body of the
  next label, \<^verbatim>\<open>case 100000\<close>.
\<close>

definition baud_body_100000 :: "8 word \<times> 8 word \<Rightarrow> 8 word \<times> 8 word" where
  "baud_body_100000 d = (0x03, 0xC4)"

definition baud_body_921600 :: "8 word \<times> 8 word \<Rightarrow> 8 word \<times> 8 word" where
  "baud_body_921600 d = baud_body_100000 (0x07, 0xF3)"

definition ch375_baud_switch :: "32 word \<Rightarrow> (8 word \<times> 8 word) option" where
  "ch375_baud_switch baudrate =
     (if baudrate = 9600 then Some (0x02, 0xB2)
      else if baudrate = 19200 then Some (0x02, 0xD9)
      else if baudrate = 57600 then Some (0x03, 0x98)
      else if baudrate = 115200 then Some (0x03, 0xCC)
      else if baudrate = 460800 then Some (0x03, 0xF3)
      else if baudrate = 921600 then Some (baud_body_921600 (0, 0))
      else if baudrate = 100000 then Some (baud_body_100000 (0, 0))
      else if baudrate = 1000000 then Some (0x03, 0xFA)
      else if baudrate = 2000000 then Some (0x03, 0xFD)
      else None)"

definition ch375_setBaudrate :: "'l ch375_Context_t option \<Rightarrow> 32 word \<Rightarrow> 'l \<Rightarrow> ch37x_ret \<times> 'l" where
  "ch375_setBaudrate pCtx baudrate l =
     (if pCtx = None then (CH37X_PARAM_INVALID, l)
      else case ch375_baud_switch baudrate of
        None \<Rightarrow> (CH37X_PARAM_INVALID, l)
      | Some (data1, data2) \<Rightarrow>
          (case ch375_writeCmd pCtx CH375_CMD_SET_BAUDRATE l of (ret, l1) \<Rightarrow>
             if ret \<noteq> CH37X_SUCCESS then (CH37X_WRITE_CMD_FAILED, l1)
             else case ch375_writeData pCtx data1 l1 of (ret, l2) \<Rightarrow>
               if ret \<noteq> CH37X_SUCCESS then (CH37X_WRITE_CMD_FAILED, l2)
               else case ch375_writeData pCtx data2 l2 of (ret, l3) \<Rightarrow>
                 if ret \<noteq> CH37X_SUCCESS then (CH37X_WRITE_CMD_FAILED, l3)
                 else (CH37X_SUCCESS, l3)))"

definition ch376s_baud_switch :: "32 word \<Rightarrow> (8 word \<times> 8 word) option" where
  "ch376s_baud_switch baudrate =
     (if baudrate = 9600 then Some (0x02, 0xB2)
      else if baudrate = 115200 then Some (0x03, 0xCC)
      else None)"

definition ch376s_setBaudrate :: "'l ch376s_Context_t option \<Rightarrow> 32 word \<Rightarrow> 'l \<Rightarrow> ch37x_ret \<times> 'l" where
  "ch376s_setBaudrate pCtx baudrate l =
     (if pCtx = None then (CH37X_PARAM_INVALID, l)
      else case ch376s_baud_switch baudrate of
        None \<Rightarrow> (CH37X_PARAM_INVALID, l)
      | Some (data1, data2) \<Rightarrow>
          (case ch376s_writeByte pCtx CH376S_CMD_SET_BAUDRATE l of (ret, l1) \<Rightarrow>
             if ret \<noteq> CH37X_SUCCESS then (CH37X_WRITE_CMD_FAILED, l1)
             else case ch376s_writeByte pCtx data1 l1 of (ret, l2) \<Rightarrow>
               if ret \<noteq> CH37X_SUCCESS then (CH37X_WRITE_CMD_FAILED, l2)
               else case ch376s_writeByte pCtx data2 l2 of (ret, l3) \<Rightarrow>
                 if ret \<noteq> CH37X_SUCCESS then (CH37X_WRITE_CMD_FAILED, l3)
                 else (CH37X_SUCCESS, l3)))"

text \<open>
  A link that records what is written and never fails: the platform state is the list of
  words on the wire, a command word tagged \<open>True\<close>, a data word tagged \<open>False\<close>.
\<close>

definition rec_link :: "(bool \<times> 8 word) list ch375_Context_t" where
  "rec_link = \<lparr> write_cmd = (\<lambda>l c. (CH37X_SUCCESS, l @ [(True, c)])),
                write_data = (\<lambda>l d. (CH37X_SUCCESS, l @ [(False, d)])) \<rparr>"

definition rec_link_b :: "8 word list ch376s_Context_t" where
  "rec_link_b = \<lparr> write_byte = (\<lambda>l b. (CH37X_SUCCESS, l @ [b])) \<rparr>"

text \<open>The coefficient table the driver's case labels spell out, entry by entry.\<close>

definition ch375_baud_table :: "(32 word \<times> 8 word \<times> 8 word) list" where
  "ch375_baud_table =
     [(9600, 0x02, 0xB2), (19200, 0x02, 0xD9), (57600, 0x03, 0x98), (115200, 0x03, 0xCC),
      (460800, 0x03, 0xF3), (921600, 0x07, 0xF3), (100000, 0x03, 0xC4),
      (1000000, 0x03, 0xFA), (2000000, 0x03, 0xFD)]"

section \<open>Recoil compensation sequencer\<close>

text \<open>
  \<^verbatim>\<open>struct RecoilComp_Context_t\<close> (\<^verbatim>\<open>input_patterns.h\<close>): the state flags, the three
  tick arrays with their length, and the sequence state. The arrays hold \<^verbatim>\<open>int32_t\<close>;
  a 32-bit word carries the bit pattern, \<open>sint\<close> reads it signed. \<^verbatim>\<open>arrLen\<close> and
  \<^verbatim>\<open>arrIndex\<close> are C \<^verbatim>\<open>int\<close>s. The two \<^verbatim>\<open>float\<close> fields and the preset pointer
  are not read by \<^verbatim>\<open>recoilComp_getNextData\<close> and are left out of the record.
\<close>

record RecoilComp_Context_t =
  stateFlags :: "32 word"
  pX :: "32 word list"
  pY :: "32 word list"
  pTs :: "32 word list"
  arrLen :: int
  arrIndex :: int
  lastTickMs :: "32 word"

text \<open>\<^verbatim>\<open>struct PatternCompensation_t\<close>, fields \<^verbatim>\<open>x\<close> and \<^verbatim>\<open>y\<close>.\<close>

record PatternCompensation_t =
  comp_x :: "32 word"
  comp_y :: "32 word"

definition RECOIL_COMP_STATE_INITIALIZED :: "32 word" where
  "RECOIL_COMP_STATE_INITIALIZED = 1"

definition RECOIL_COMP_STATE_ARRAYS_ALLOCATED :: "32 word" where
  "RECOIL_COMP_STATE_ARRAYS_ALLOCATED = 4"

text \<open>The values \<^verbatim>\<open>recoilComp_getNextData\<close> returns: \<open>0\<close>, \<open>-1\<close> and \<^verbatim>\<open>-EINVAL\<close>.\<close>

datatype recoil_ret = RC_DATA | RC_NO_DATA | RC_EINVAL

definition recoilComp_cbTimeElapsed :: "32 word \<Rightarrow> 32 word \<Rightarrow> 32 word" where
  "recoilComp_cbTimeElapsed start now =
     (if now \<ge> start then now - start else (0xFFFFFFFF - start) + now + 1)"

text \<open>
  Reading element \<open>i\<close> of a heap array through a C \<^verbatim>\<open>int\<close> index. An index outside
  the allocation is undefined behaviour in C; the model answers \<open>None\<close> there.
\<close>

definition arr_read :: "'a list \<Rightarrow> int \<Rightarrow> 'a option" where
  "arr_read xs i = (if 0 \<le> i \<and> i < int (length xs) then Some (xs ! nat i) else None)"

text \<open>
  \<^verbatim>\<open>recoilComp_getNextData\<close>. The arguments are the context (\<open>None\<close> for a NULL
  pointer), the output structure (likewise) and the value \<^verbatim>\<open>k_uptime_get_32()\<close>
  returns during the call. The result is the return value with the context and the output
  structure as the call leaves them; \<open>None\<close> stands for a read outside the tick arrays.
\<close>

definition recoilComp_getNextData ::
  "RecoilComp_Context_t option \<Rightarrow> PatternCompensation_t option \<Rightarrow> 32 word \<Rightarrow>
   (recoil_ret \<times> RecoilComp_Context_t option \<times> PatternCompensation_t option) option" where
  "recoilComp_getNextData pCtx pData uptime =
     (case (pCtx, pData) of
        (Some c, Some d) \<Rightarrow>
          if stateFlags c AND RECOIL_COMP_STATE_INITIALIZED = 0 then Some (RC_EINVAL, pCtx, pData)
          else if stateFlags c AND RECOIL_COMP_STATE_ARRAYS_ALLOCATED = 0
            then Some (RC_EINVAL, pCtx, pData)
          else if arrIndex c \<ge> arrLen c then Some (RC_NO_DATA, pCtx, pData)
          else
            (let now = uptime;
                 elapsed = recoilComp_cbTimeElapsed (lastTickMs c) now
             in case arr_read (pTs c) (arrIndex c) of
                  None \<Rightarrow> None
                | Some t \<Rightarrow>
                    if elapsed \<ge> t then
                      (case (arr_read (pX c) (arrIndex c), arr_read (pY c) (arrIndex c)) of
                         (Some vx, Some vy) \<Rightarrow>
                           Some (RC_DATA,
                                 Some (c\<lparr>lastTickMs := lastTickMs c + t,
                                         arrIndex := arrIndex c + 1\<rparr>),
                                 Some (d\<lparr>comp_x := vx, comp_y := (- 1) * vy\<rparr>))
                       | _ \<Rightarrow> None)
                    else Some (RC_NO_DATA, pCtx, pData))
      | _ \<Rightarrow> Some (RC_EINVAL, pCtx, pData))"

text \<open>
  A context as \<^verbatim>\<open>recoilComp_cbGenerateDataLocked\<close> leaves it: both flags set, three
  arrays of \<^verbatim>\<open>arrLen\<close> elements, and an index that only \<^verbatim>\<open>recoilComp_restart\<close>
  (to 0) and \<^verbatim>\<open>recoilComp_getNextData\<close> (plus one) write.
\<close>

definition recoil_ready :: "RecoilComp_Context_t \<Rightarrow> bool" where
  "recoil_ready c \<longleftrightarrow>
     stateFlags c AND RECOIL_COMP_STATE_INITIALIZED \<noteq> 0 \<and>
     stateFlags c AND RECOIL_COMP_STATE_ARRAYS_ALLOCATED \<noteq> 0 \<and>
     0 \<le> arrIndex c \<and>
     int (length (pX c)) = arrLen c \<and> int (length (pY c)) = arrLen c \<and>
     int (length (pTs c)) = arrLen c"

section \<open>Memory blocks\<close>

text \<open>
  A heap block or caller's buffer is the list of its bytes. Reading or writing bytes
  \<open>base, \<dots>, base + n - 1\<close> of a block is defined when they all lie inside it;
  outside, C gives no meaning to the access and the functions that use \<open>field_get\<close>
  answer \<open>None\<close>. \<open>field_put\<close> overwrites the bytes from \<open>base\<close> on; its callers
  check the range first.
\<close>

definition field_get :: "8 word list \<Rightarrow> nat \<Rightarrow> nat \<Rightarrow> 8 word list option" where
  "field_get buf base n = (if base + n \<le> length buf then Some (take n (drop base buf)) else None)"

definition field_put :: "8 word list \<Rightarrow> nat \<Rightarrow> 8 word list \<Rightarrow> 8 word list" where
  "field_put buf base bs = take base buf @ bs @ drop (base + length bs) buf"

section \<open>USB endpoints and the scripted chip\<close>

text \<open>\<^verbatim>\<open>struct USB_Endpoint_t\<close> (\<^verbatim>\<open>ch375_host.h\<close>).\<close>

record USB_Endpoint_t =
  ep_addr :: "8 word"
  attributes :: "8 word"
  max_packet :: "16 word"
  interval :: "8 word"
  data_toggle :: bool

text \<open>
  The transfer code drives the chip through \<^verbatim>\<open>ch37x_setRetry\<close>,
  \<^verbatim>\<open>ch37x_sendToken\<close>, \<^verbatim>\<open>ch37x_writeBlockData\<close> and \<^verbatim>\<open>ch37x_readBlockData\<close> and
  branches on what they return. The chip is a script: one response per call, in call
  order, holding the result code of the call, the status byte (what \<^verbatim>\<open>sendToken\<close>
  stores through \<^verbatim>\<open>pStatus\<close>) and the payload (what the chip hands to
  \<^verbatim>\<open>readBlockData\<close>). A call on an exhausted script has no result (\<open>None\<close>).
\<close>

datatype chip_resp = Resp (resp_ret: ch37x_ret) (resp_status: "8 word") (resp_data: "8 word list")

definition ch37x_setRetry :: "chip_resp list \<Rightarrow> (ch37x_ret \<times> chip_resp list) option" where
  "ch37x_setRetry chip = (case chip of [] \<Rightarrow> None | r # rs \<Rightarrow> Some (resp_ret r, rs))"

definition ch37x_writeBlockData :: "chip_resp list \<Rightarrow> (ch37x_ret \<times> chip_resp list) option" where
  "ch37x_writeBlockData chip = (case chip of [] \<Rightarrow> None | r # rs \<Rightarrow> Some (resp_ret r, rs))"

definition ch37x_sendToken :: "chip_resp list \<Rightarrow> (ch37x_ret \<times> 8 word \<times> chip_resp list) option" where
  "ch37x_sendToken chip =
     (case chip of [] \<Rightarrow> None | r # rs \<Rightarrow> Some (resp_ret r, resp_status r, rs))"

text \<open>
  \<^verbatim>\<open>ch37x_readBlockData(pCtx, pBuff, len, pActualLen)\<close> stores at most \<^verbatim>\<open>len\<close> bytes
  of the payload, \<^verbatim>\<open>len\<close> being a \<^verbatim>\<open>uint8_t\<close>; the result carries the bytes stored.
\<close>

definition ch37x_readBlockData ::
  "8 word \<Rightarrow> chip_resp list \<Rightarrow> (ch37x_ret \<times> 8 word list \<times> chip_resp list) option" where
  "ch37x_readBlockData len chip =
     (case chip of [] \<Rightarrow> None
      | r # rs \<Rightarrow> Some (resp_ret r, take (unat len) (resp_data r), rs))"

text \<open>
  The status bytes of \<^verbatim>\<open>ch376s.h\<close> (the CH375 header declares the same values, see the
  specification's status byte table) and the macro \<^verbatim>\<open>CH37X_PID2STATUS\<close>.
  Modelled from the spec: \<^verbatim>\<open>usb.h\<close> with the token PIDs is not part of the sources;
  \<^verbatim>\<open>USB_PID_NAK\<close> and \<^verbatim>\<open>USB_PID_STALL\<close> are the USB packet identifiers 0x0A and 0x0E.
\<close>

definition CH37X_USB_INT_SUCCESS :: "8 word" where
  "CH37X_USB_INT_SUCCESS = 0x14"

definition CH37X_USB_INT_DISCONNECT :: "8 word" where
  "CH37X_USB_INT_DISCONNECT = 0x16"

definition CH37X_PID2STATUS :: "8 word \<Rightarrow> 8 word" where
  "CH37X_PID2STATUS x = x OR 0x20"

definition USB_PID_NAK :: "8 word" where
  "USB_PID_NAK = 0x0A"

definition USB_PID_STALL :: "8 word" where
  "USB_PID_STALL = 0x0E"

section \<open>USB device tables and the configuration walk\<close>

text \<open>The enumerators of \<^verbatim>\<open>ch375_HostErrNo_e\<close> (\<^verbatim>\<open>ch375_host.h\<close>).\<close>

datatype ch37x_host_ret =
    CH37X_HOST_SUCCESS
  | CH37X_HOST_ERROR
  | CH37X_HOST_PARAM_INVALID
  | CH37X_HOST_TIMEOUT
  | CH37X_HOST_DEV_DISCONNECT
  | CH37X_HOST_STALL
  | CH37X_HOST_IO_ERROR
  | CH37X_HOST_NOT_SUPPORT
  | CH37X_HOST_ALLOC_FAILED

definition USB_MAX_ENDPOINTS :: nat where
  "USB_MAX_ENDPOINTS = 4"

definition USB_MAX_INTERFACES :: nat where
  "USB_MAX_INTERFACES = 4"

text \<open>
  \<^verbatim>\<open>struct USB_Interface_t\<close> and the tables of \<^verbatim>\<open>struct USB_Device_t\<close>. The arrays
  \<^verbatim>\<open>endpoints[USB_MAX_ENDPOINTS]\<close> and \<^verbatim>\<open>interfaces[USB_MAX_INTERFACES]\<close> are lists
  of four elements; the counts are \<^verbatim>\<open>uint8_t\<close>. \<^verbatim>\<open>raw_conf_desc\<close> is a heap block.
\<close>

record USB_Interface_t =
  interface_number :: "8 word"
  interface_class :: "8 word"
  interface_subclass :: "8 word"
  interface_protocol :: "8 word"
  endpoint_count :: "8 word"
  endpoints :: "USB_Endpoint_t list"

record USB_Device_t =
  ep0_max_packet :: "8 word"
  raw_conf_desc :: "8 word list option"
  raw_conf_desc_len :: nat
  interface_count :: "8 word"
  interfaces :: "USB_Interface_t list"

text \<open>
  Modelled from the spec: \<^verbatim>\<open>usb.h\<close>, which declares the descriptor type codes and the
  descriptor structures, is not part of the sources. The specification's walk dispatches
  on \<^verbatim>\<open>bDescriptorType\<close> with INTERFACE and ENDPOINT, the USB descriptor types 4 and 5,
  and reads the standard layouts: an interface descriptor has \<^verbatim>\<open>bInterfaceNumber\<close> at
  byte 2 and class, subclass, protocol at bytes 5 to 7; an endpoint descriptor has
  \<^verbatim>\<open>bEndpointAddress\<close> at byte 2, \<^verbatim>\<open>bmAttributes\<close> at 3, \<^verbatim>\<open>wMaxPacketSize\<close> at 4
  and 5, \<^verbatim>\<open>bInterval\<close> at 6. The unit tests walk descriptors of this layout.
\<close>

definition USB_DESC_INTERFACE :: "8 word" where
  "USB_DESC_INTERFACE = 4"

definition USB_DESC_ENDPOINT :: "8 word" where
  "USB_DESC_ENDPOINT = 5"

text \<open>
  What C leaves undefined in the walk: a store outside a table, a read outside the
  descriptor block.
\<close>

datatype fault = TableOverflow | DescOverread

definition desc_byte :: "8 word list \<Rightarrow> nat \<Rightarrow> fault + 8 word" where
  "desc_byte buf i = (if i < length buf then Inr (buf ! i) else Inl DescOverread)"

text \<open>
  \<^verbatim>\<open>parse_interface_descriptor\<close>: the slot is \<^verbatim>\<open>interfaces[interface_count]\<close>, with
  no check of the count against the table size.
\<close>

definition parse_interface_descriptor ::
  "USB_Device_t \<Rightarrow> 8 word list \<Rightarrow> nat \<Rightarrow> fault + USB_Device_t" where
  "parse_interface_descriptor udev buf pDesc =
     (let i = unat (interface_count udev)
      in if i < USB_MAX_INTERFACES \<and> i < length (interfaces udev) then
           (case (desc_byte buf (pDesc + 2), desc_byte buf (pDesc + 5),
                  desc_byte buf (pDesc + 6), desc_byte buf (pDesc + 7)) of
              (Inr bInterfaceNumber, Inr bInterfaceClass, Inr bInterfaceSubClass,
               Inr bInterfaceProtocol) \<Rightarrow>
                Inr (udev\<lparr>interfaces := (interfaces udev)[i :=
                             (interfaces udev ! i)\<lparr>interface_number := bInterfaceNumber,
                                                   interface_class := bInterfaceClass,
                                                   interface_subclass := bInterfaceSubClass,
                                                   interface_protocol := bInterfaceProtocol\<rparr>],
                           interface_count := interface_count udev + 1\<rparr>)
            | _ \<Rightarrow> Inl DescOverread)
         else Inl TableOverflow)"

text \<open>
  \<^verbatim>\<open>parse_endpoint_descriptor(&pUdev->interfaces[pUdev->interface_count - 1], ...)\<close>:
  the interface index is \<^verbatim>\<open>interface_count - 1\<close> in \<^verbatim>\<open>int\<close> arithmetic, the slot is
  \<^verbatim>\<open>endpoints[endpoint_count]\<close>, again unchecked.
\<close>

definition parse_endpoint_descriptor ::
  "USB_Device_t \<Rightarrow> 8 word list \<Rightarrow> nat \<Rightarrow> fault + USB_Device_t" where
  "parse_endpoint_descriptor udev buf pDesc =
     (let k = int (unat (interface_count udev)) - 1
      in if 0 \<le> k \<and> nat k < USB_MAX_INTERFACES \<and> nat k < length (interfaces udev) then
           (let pIfc = interfaces udev ! nat k;
                j = unat (endpoint_count pIfc)
            in if j < USB_MAX_ENDPOINTS \<and> j < length (endpoints pIfc) then
                 (case (desc_byte buf (pDesc + 2), desc_byte buf (pDesc + 3),
                        desc_byte buf (pDesc + 4), desc_byte buf (pDesc + 5),
                        desc_byte buf (pDesc + 6)) of
                    (Inr bEndpointAddress, Inr bmAttributes, Inr size_lo, Inr size_hi,
                     Inr bInterval) \<Rightarrow>
                      Inr (udev\<lparr>interfaces := (interfaces udev)[nat k :=
                             pIfc\<lparr>endpoints := (endpoints pIfc)[j :=
                                      \<lparr>ep_addr = bEndpointAddress, attributes = bmAttributes,
                                       max_packet = ucast size_lo OR push_bit 8 (ucast size_hi),
                                       interval = bInterval, data_toggle = False\<rparr>],
                                  endpoint_count := endpoint_count pIfc + 1\<rparr>]\<rparr>)
                  | _ \<Rightarrow> Inl DescOverread)
               else Inl TableOverflow)
         else Inl TableOverflow)"

text \<open>
  The \<^verbatim>\<open>while\<close> loop of \<^verbatim>\<open>parse_config_descriptor\<close>, \<open>pos\<close> being
  \<^verbatim>\<open>pDescStart\<close> as an offset into the block and \<open>len\<close> being
  \<^verbatim>\<open>raw_conf_desc_len\<close>. A fault ends the walk; otherwise the result is the return
  value and the device.
\<close>

function parse_walk ::
  "USB_Device_t \<Rightarrow> 8 word list \<Rightarrow> nat \<Rightarrow> nat \<Rightarrow> fault + (ch37x_host_ret \<times> USB_Device_t)" where
  "parse_walk udev buf len pos =
     (if pos + 2 \<le> len then
        (case (desc_byte buf pos, desc_byte buf (pos + 1)) of
           (Inr bLength, Inr bDescriptorType) \<Rightarrow>
             if bLength = 0 then Inr (CH37X_HOST_ERROR, udev)
             else if pos + unat bLength > len then Inr (CH37X_HOST_ERROR, udev)
             else
               (case (if bDescriptorType = USB_DESC_INTERFACE
                        then parse_interface_descriptor udev buf pos
                      else if bDescriptorType = USB_DESC_ENDPOINT
                        then parse_endpoint_descriptor udev buf pos
                      else Inr udev) of
                  Inl f \<Rightarrow> Inl f
                | Inr udev' \<Rightarrow> parse_walk udev' buf len (pos + unat bLength))
         | _ \<Rightarrow> Inl DescOverread)
      else Inr (CH37X_HOST_SUCCESS, udev))"
  by pat_completeness auto
termination
proof (relation "measure (\<lambda>(udev, buf, len, pos). len - pos)")
  show "wf (measure (\<lambda>(udev, buf, len, pos). len - pos))" by simp
next
  fix udev :: USB_Device_t and buf :: "8 word list" and len pos :: nat
    and x :: "(fault + 8 word) \<times> (fault + 8 word)" and a b :: "fault + 8 word"
    and bLength bDescriptorType :: "8 word" and r :: "fault + USB_Device_t" and udev' :: USB_Device_t
  assume "pos + 2 \<le> len" "bLength \<noteq> 0" "\<not> len < pos + unat bLength"
  then have "0 < unat bLength" by (simp add: unat_gt_0)
  with \<open>pos + 2 \<le> len\<close>
  show "((udev', buf, len, pos + unat bLength), (udev, buf, len, pos))
          \<in> measure (\<lambda>(udev, buf, len, pos). len - pos)"
    by simp
qed

definition parse_config_descriptor ::
  "USB_Device_t option \<Rightarrow> fault + (ch37x_host_ret \<times> USB_Device_t option)" where
  "parse_config_descriptor pUdev =
     (case pUdev of
        None \<Rightarrow> Inr (CH37X_HOST_ERROR, pUdev)
      | Some udev \<Rightarrow>
          (case raw_conf_desc udev of
             None \<Rightarrow> Inr (CH37X_HOST_ERROR, pUdev)
           | Some buf \<Rightarrow>
               if raw_conf_desc_len udev = 0 then Inr (CH37X_HOST_ERROR, pUdev)
               else (case parse_walk udev buf (raw_conf_desc_len udev) 0 of
                       Inl f \<Rightarrow> Inl f
                     | Inr (ret, udev') \<Rightarrow> Inr (ret, Some udev'))))"

text \<open>
  The device as \<^verbatim>\<open>ch375_hostUdevOpen\<close> hands it to the walk: zeroed by \<^verbatim>\<open>memset\<close>,
  then the descriptor block of \<^verbatim>\<open>wTotalLength\<close> bytes attached.
\<close>

definition zero_endpoint :: USB_Endpoint_t where
  "zero_endpoint = \<lparr>ep_addr = 0, attributes = 0, max_packet = 0, interval = 0, data_toggle = False\<rparr>"

definition zero_interface :: USB_Interface_t where
  "zero_interface = \<lparr>interface_number = 0, interface_class = 0, interface_subclass = 0,
                      interface_protocol = 0, endpoint_count = 0,
                      endpoints = replicate USB_MAX_ENDPOINTS zero_endpoint\<rparr>"

definition opened_udev :: "8 word list \<Rightarrow> USB_Device_t" where
  "opened_udev conf = \<lparr>ep0_max_packet = 8, raw_conf_desc = Some conf,
                        raw_conf_desc_len = length conf, interface_count = 0,
                        interfaces = replicate USB_MAX_INTERFACES zero_interface\<rparr>"

text \<open>
  Three configuration descriptors, each a 9-byte configuration header followed by
  well-formed items: five interfaces; one interface with five endpoints; an endpoint
  ahead of any interface.
\<close>

definition hid_interface_desc :: "8 word \<Rightarrow> 8 word list" where
  "hid_interface_desc n = [0x09, 0x04, n, 0x00, 0x00, 0x03, 0x01, 0x01, 0x00]"

definition in_endpoint_desc :: "8 word \<Rightarrow> 8 word list" where
  "in_endpoint_desc a = [0x07, 0x05, a, 0x03, 0x08, 0x00, 0x0A]"

definition conf_five_interfaces :: "8 word list" where
  "conf_five_interfaces =
     [0x09, 0x02, 0x36, 0x00, 0x05, 0x01, 0x00, 0x80, 0x32]
     @ hid_interface_desc 0 @ hid_interface_desc 1 @ hid_interface_desc 2
     @ hid_interface_desc 3 @ hid_interface_desc 4"

definition conf_five_endpoints :: "8 word list" where
  "conf_five_endpoints =
     [0x09, 0x02, 0x35, 0x00, 0x01, 0x01, 0x00, 0x80, 0x32]
     @ [0x09, 0x04, 0x00, 0x00, 0x05, 0x03, 0x00, 0x00, 0x00]
     @ in_endpoint_desc 0x81 @ in_endpoint_desc 0x82 @ in_endpoint_desc 0x83
     @ in_endpoint_desc 0x84 @ in_endpoint_desc 0x85"

definition conf_endpoint_first :: "8 word list" where
  "conf_endpoint_first =
     [0x09, 0x02, 0x10, 0x00, 0x00, 0x01, 0x00, 0x80, 0x32] @ in_endpoint_desc 0x81"

section \<open>Control transfers\<close>

definition SETUP_IN :: "8 word \<Rightarrow> bool" where
  "SETUP_IN x \<longleftrightarrow> x AND 0x80 \<noteq> 0"

text \<open>A store through \<^verbatim>\<open>pActualLen\<close>: the cell is \<open>None\<close> for a NULL pointer.\<close>

definition store_actual :: "int option \<Rightarrow> int \<Rightarrow> int option" where
  "store_actual pActualLen v = map_option (\<lambda>old. v) pActualLen"

text \<open>
  The DATA stage of an IN transfer, \<^verbatim>\<open>while (totalReceived < wLength)\<close>. The loop
  ends with an early return (\<open>Inl\<close>) or goes on to the STATUS stage with the byte count
  (\<open>Inr\<close>); with it come the caller's buffer and the rest of the script. \<open>None\<close>: the
  script is exhausted, or the bytes read do not fit the caller's buffer. The local
  \<^verbatim>\<open>toggle\<close> and the NAK counter only reach the chip and the log.
\<close>

function control_in_loop ::
  "8 word \<Rightarrow> 16 word \<Rightarrow> 8 word list \<Rightarrow> int \<Rightarrow> chip_resp list \<Rightarrow>
   ((ch37x_host_ret + int) \<times> 8 word list \<times> chip_resp list) option" where
  "control_in_loop mps wLength pData totalReceived chip =
     (if totalReceived < uint wLength then
        (case ch37x_sendToken chip of
           None \<Rightarrow> None
         | Some (ret, status, chip1) \<Rightarrow>
             if ret \<noteq> CH37X_SUCCESS then Some (Inl CH37X_HOST_ERROR, pData, chip1)
             else if status \<noteq> CH37X_USB_INT_SUCCESS then
               (if status = CH37X_PID2STATUS USB_PID_NAK
                  then control_in_loop mps wLength pData totalReceived chip1
                else if status = CH37X_PID2STATUS USB_PID_STALL
                  then Some (Inl CH37X_HOST_STALL, pData, chip1)
                else if status = CH37X_USB_INT_DISCONNECT
                  then Some (Inl CH37X_HOST_DEV_DISCONNECT, pData, chip1)
                else if totalReceived > 0 then Some (Inr totalReceived, pData, chip1)
                else Some (Inl CH37X_HOST_ERROR, pData, chip1))
             else
               (case ch37x_readBlockData (of_int (uint wLength - totalReceived)) chip1 of
                  None \<Rightarrow> None
                | Some (ret, stored, chip2) \<Rightarrow>
                    if nat totalReceived + length stored \<le> length pData then
                      (let pData' = field_put pData (nat totalReceived) stored;
                           packetLen = length stored
                       in if ret \<noteq> CH37X_SUCCESS then
                            (if totalReceived > 0 then Some (Inr totalReceived, pData', chip2)
                             else Some (Inl CH37X_HOST_ERROR, pData', chip2))
                          else
                            (let total' = (if packetLen > 0 then totalReceived + int packetLen
                                           else totalReceived)
                             in if packetLen < unat mps then Some (Inr total', pData', chip2)
                                else control_in_loop mps wLength pData' total' chip2))
                    else None))
      else Some (Inr totalReceived, pData, chip))"
  by pat_completeness auto
termination
  by (relation "measure (\<lambda>(mps, wLength, pData, totalReceived, chip). length chip)")
     (auto simp: ch37x_sendToken_def ch37x_readBlockData_def split: list.splits)

text \<open>The DATA stage of an OUT transfer.\<close>

function control_out_loop ::
  "8 word \<Rightarrow> 16 word \<Rightarrow> int \<Rightarrow> chip_resp list \<Rightarrow>
   ((ch37x_host_ret + int) \<times> chip_resp list) option" where
  "control_out_loop mps wLength totalReceived chip =
     (if totalReceived < uint wLength then
        (let toSend0 = (of_int (uint wLength - totalReceived) :: 8 word);
             toSend = (if toSend0 > mps then mps else toSend0)
         in case ch37x_writeBlockData chip of
              None \<Rightarrow> None
            | Some (ret, chip1) \<Rightarrow>
                if ret \<noteq> CH37X_SUCCESS then Some (Inl CH37X_HOST_ERROR, chip1)
                else
                  (case ch37x_sendToken chip1 of
                     None \<Rightarrow> None
                   | Some (ret, status, chip2) \<Rightarrow>
                       if ret \<noteq> CH37X_SUCCESS then Some (Inl CH37X_HOST_ERROR, chip2)
                       else if status \<noteq> CH37X_USB_INT_SUCCESS then
                         (if status = CH37X_USB_INT_DISCONNECT
                            then Some (Inl CH37X_HOST_DEV_DISCONNECT, chip2)
                          else if status = CH37X_PID2STATUS USB_PID_STALL
                            then Some (Inl CH37X_HOST_STALL, chip2)
                          else Some (Inl CH37X_HOST_ERROR, chip2))
                       else control_out_loop mps wLength (totalReceived + uint toSend) chip2))
      else Some (Inr totalReceived, chip))"
  by pat_completeness auto
termination
  by (relation "measure (\<lambda>(mps, wLength, totalReceived, chip). length chip)")
     (auto simp: ch37x_sendToken_def ch37x_writeBlockData_def split: list.splits)

text \<open>
  The STATUS stage (\<^verbatim>\<open>ch375_host.c\<close>, from the comment \<^verbatim>\<open>// Status stage\<close> to the
  end of \<^verbatim>\<open>ch375_hostControlTransfer\<close>): the return value, the \<^verbatim>\<open>pActualLen\<close> cell
  and the rest of the script.
\<close>

definition control_status_stage ::
  "8 word \<Rightarrow> int \<Rightarrow> int option \<Rightarrow> chip_resp list \<Rightarrow>
   (ch37x_host_ret \<times> int option \<times> chip_resp list) option" where
  "control_status_stage reqType totalReceived pActualLen chip =
     (if SETUP_IN reqType then
        (case ch37x_writeBlockData chip of
           None \<Rightarrow> None
         | Some (ret, chip1) \<Rightarrow>
             if ret \<noteq> CH37X_SUCCESS then
               (if totalReceived > 0
                  then Some (CH37X_HOST_SUCCESS, store_actual pActualLen totalReceived, chip1)
                else Some (CH37X_HOST_ERROR, pActualLen, chip1))
             else
               (case ch37x_sendToken chip1 of
                  None \<Rightarrow> None
                | Some (ret, status, chip2) \<Rightarrow>
                    if ret \<noteq> CH37X_SUCCESS then
                      (if totalReceived > 0
                         then Some (CH37X_HOST_SUCCESS, store_actual pActualLen totalReceived, chip2)
                       else Some (CH37X_HOST_ERROR, pActualLen, chip2))
                    else if status \<noteq> CH37X_USB_INT_SUCCESS then
                      (if totalReceived > 0
                         then Some (CH37X_HOST_SUCCESS, store_actual pActualLen totalReceived, chip2)
                       else if status = CH37X_USB_INT_DISCONNECT
                         then Some (CH37X_HOST_DEV_DISCONNECT, pActualLen, chip2)
                       else if status = CH37X_PID2STATUS USB_PID_STALL
                         then Some (CH37X_HOST_STALL, pActualLen, chip2)
                       else Some (CH37X_HOST_ERROR, pActualLen, chip2))
                    else Some (CH37X_HOST_SUCCESS, store_actual pActualLen totalReceived, chip2)))
      else
        (case ch37x_sendToken chip of
           None \<Rightarrow> None
         | Some (ret, status, chip1) \<Rightarrow>
             if ret \<noteq> CH37X_SUCCESS then Some (CH37X_HOST_ERROR, pActualLen, chip1)
             else if status \<noteq> CH37X_USB_INT_SUCCESS then
               (if status = CH37X_USB_INT_DISCONNECT
                  then Some (CH37X_HOST_DEV_DISCONNECT, pActualLen, chip1)
                else if status = CH37X_PID2STATUS USB_PID_STALL
                  then Some (CH37X_HOST_STALL, pActualLen, chip1)
                else Some (CH37X_HOST_ERROR, pActualLen, chip1))
             else Some (CH37X_HOST_SUCCESS, store_actual pActualLen totalReceived, chip1)))"

text \<open>
  Everything ahead of the STATUS stage: the parameter check, the retry command, the
  SETUP packet and token, and the DATA stage when \<^verbatim>\<open>wLength > 0\<close>. \<open>Inl\<close> is an
  early return; \<open>Inr\<close> is the byte count the STATUS stage starts with. The request
  fields \<^verbatim>\<open>bRequest\<close>, \<^verbatim>\<open>wValue\<close>, \<^verbatim>\<open>wIndex\<close> and the unused \<^verbatim>\<open>timeout\<close> only
  reach the chip (the SETUP packet, the retry level) and are not arguments.
\<close>

definition control_before_status ::
  "USB_Device_t \<Rightarrow> 8 word \<Rightarrow> 8 word list option \<Rightarrow> 16 word \<Rightarrow> chip_resp list \<Rightarrow>
   ((ch37x_host_ret + int) \<times> 8 word list option \<times> chip_resp list) option" where
  "control_before_status udev reqType pData wLength chip =
     (if pData = None \<and> wLength \<noteq> 0 then Some (Inl CH37X_HOST_PARAM_INVALID, pData, chip)
      else
        (case ch37x_setRetry chip of
           None \<Rightarrow> None
         | Some (ret, chip1) \<Rightarrow>
             if ret \<noteq> CH37X_SUCCESS then Some (Inl CH37X_HOST_ERROR, pData, chip1)
             else
               (case ch37x_writeBlockData chip1 of
                  None \<Rightarrow> None
                | Some (ret, chip2) \<Rightarrow>
                    if ret \<noteq> CH37X_SUCCESS then Some (Inl CH37X_HOST_ERROR, pData, chip2)
                    else
                      (case ch37x_sendToken chip2 of
                         None \<Rightarrow> None
                       | Some (ret, status, chip3) \<Rightarrow>
                           if ret \<noteq> CH37X_SUCCESS then Some (Inl CH37X_HOST_ERROR, pData, chip3)
                           else if status \<noteq> CH37X_USB_INT_SUCCESS then
                             (if status = CH37X_USB_INT_DISCONNECT
                                then Some (Inl CH37X_HOST_DEV_DISCONNECT, pData, chip3)
                              else if status = CH37X_PID2STATUS USB_PID_STALL
                                then Some (Inl CH37X_HOST_STALL, pData, chip3)
                              else Some (Inl CH37X_HOST_ERROR, pData, chip3))
                           else if wLength > 0 then
                             (if SETUP_IN reqType then
                                (case pData of
                                   None \<Rightarrow> None
                                 | Some buf \<Rightarrow>
                                     map_option (\<lambda>(r, buf', chip4). (r, Some buf', chip4))
                                       (control_in_loop (ep0_max_packet udev) wLength buf 0 chip3))
                              else
                                map_option (\<lambda>(r, chip4). (r, pData, chip4))
                                  (control_out_loop (ep0_max_packet udev) wLength 0 chip3))
                           else Some (Inr 0, pData, chip3)))))"

text \<open>
  \<^verbatim>\<open>ch375_hostControlTransfer\<close>: the return value, the caller's buffer, the
  \<^verbatim>\<open>pActualLen\<close> cell and the rest of the script.
\<close>

definition ch375_hostControlTransfer ::
  "USB_Device_t \<Rightarrow> 8 word \<Rightarrow> 8 word list option \<Rightarrow> 16 word \<Rightarrow> int option \<Rightarrow> chip_resp list \<Rightarrow>
   (ch37x_host_ret \<times> 8 word list option \<times> int option \<times> chip_resp list) option" where
  "ch375_hostControlTransfer udev reqType pData wLength pActualLen chip =
     (case control_before_status udev reqType pData wLength chip of
        None \<Rightarrow> None
      | Some (Inl ret, pData', chip') \<Rightarrow> Some (ret, pData', pActualLen, chip')
      | Some (Inr totalReceived, pData', chip') \<Rightarrow>
          (case control_status_stage reqType totalReceived pActualLen chip' of
             None \<Rightarrow> None
           | Some (ret, pActualLen', chip'') \<Rightarrow> Some (ret, pData', pActualLen', chip'')))"

declare control_in_loop.simps [simp del] control_out_loop.simps [simp del]

text \<open>
  What the caller observes of a transfer: the return value, the buffer and the
  \<^verbatim>\<open>pActualLen\<close> cell.
\<close>

definition outcome ::
  "(ch37x_host_ret \<times> 8 word list option \<times> int option \<times> chip_resp list) option \<Rightarrow>
   (ch37x_host_ret \<times> 8 word list option \<times> int option) option" where
  "outcome r = map_option (\<lambda>(ret, buf, actual, rest). (ret, buf, actual)) r"

text \<open>
  The specification's description of a failing STATUS stage of an IN transfer, read off
  the responses the chip gives there: the zero-length write fails, or the token call
  fails, or the token's status byte is not \<^verbatim>\<open>CH37X_USB_INT_SUCCESS\<close>. With it, the
  error the specification lets through when no byte was delivered: Disconnected or Stall
  according to the status byte, the generic error otherwise.
\<close>

definition status_stage_failed :: "chip_resp list \<Rightarrow> bool" where
  "status_stage_failed chip =
     (case chip of
        [] \<Rightarrow> False
      | w # cs \<Rightarrow>
          resp_ret w \<noteq> CH37X_SUCCESS \<or>
          (case cs of
             [] \<Rightarrow> False
           | t # rest \<Rightarrow> resp_ret t \<noteq> CH37X_SUCCESS \<or> resp_status t \<noteq> CH37X_USB_INT_SUCCESS))"

definition propagated_error :: "chip_resp list \<Rightarrow> ch37x_host_ret" where
  "propagated_error chip =
     (case chip of
        w # t # rest \<Rightarrow>
          if resp_ret w \<noteq> CH37X_SUCCESS then CH37X_HOST_ERROR
          else if resp_ret t \<noteq> CH37X_SUCCESS then CH37X_HOST_ERROR
          else if resp_status t = CH37X_USB_INT_DISCONNECT then CH37X_HOST_DEV_DISCONNECT
          else if resp_status t = CH37X_PID2STATUS USB_PID_STALL then CH37X_HOST_STALL
          else CH37X_HOST_ERROR
      | _ \<Rightarrow> CH37X_HOST_ERROR)"

text \<open>
  Two scripts for a device with an 8-byte endpoint 0. In the first the retry command,
  the SETUP packet and token succeed, one IN token succeeds and delivers four bytes (a
  short packet), and the STATUS stage ends with the given status byte. The second has no
  DATA stage.
\<close>

definition udev8 :: USB_Device_t where
  "udev8 = opened_udev []"

definition ctl_in_script :: "8 word \<Rightarrow> chip_resp list" where
  "ctl_in_script status =
     [Resp CH37X_SUCCESS 0 [], Resp CH37X_SUCCESS 0 [], Resp CH37X_SUCCESS CH37X_USB_INT_SUCCESS [],
      Resp CH37X_SUCCESS CH37X_USB_INT_SUCCESS [], Resp CH37X_SUCCESS 0 [0x12, 0x01, 0x00, 0x02],
      Resp CH37X_SUCCESS 0 [], Resp CH37X_SUCCESS status []]"

definition ctl_nodata_script :: "8 word \<Rightarrow> chip_resp list" where
  "ctl_nodata_script status =
     [Resp CH37X_SUCCESS 0 [], Resp CH37X_SUCCESS 0 [], Resp CH37X_SUCCESS CH37X_USB_INT_SUCCESS [],
      Resp CH37X_SUCCESS 0 [], Resp CH37X_SUCCESS status []]"

section \<open>Bulk and interrupt transfers\<close>





















section \<open>HID report buffer\<close>

text \<open>The enumerators of \<^verbatim>\<open>usbHid_ErrNo_e\<close> (\<^verbatim>\<open>hid_parser.h\<close>).\<close>

datatype usbHid_ErrNo_e =
    USBHID_SUCCESS
  | USBHID_ERROR
  | USBHID_PARAM_INVALID
  | USBHID_NO_DEV
  | USBHID_IO_ERROR
  | USBHID_NOT_SUPPORT
  | USBHID_NOT_HID_DEV
  | USBHID_BUFFER_NOT_ALLOC
  | USBHID_ALLOC_FAILED

text \<open>
  \<^verbatim>\<open>struct USBHID_Device_t\<close>: the cached IN endpoint and the report buffer.
  \<^verbatim>\<open>report_buffer\<close> is a heap block (\<open>None\<close> for NULL); a pointer into it is the
  byte offset from its start. The three \<^verbatim>\<open>uint32_t\<close> fields are 32-bit words. The
  descriptor fields are not read by the functions below and are left out.
\<close>

record USBHID_Device_t =
  endpoint :: "USB_Endpoint_t option"
  report_buffer :: "8 word list option"
  report_len :: "32 word"
  report_buff_len :: "32 word"
  report_buffer_last_offset :: "32 word"

text \<open>\<^verbatim>\<open>struct HID_DataDescriptor_t\<close>; \<^verbatim>\<open>size\<close> and \<^verbatim>\<open>count\<close> carry a suffix.\<close>

record HID_DataDescriptor_t =
  physical_minimum :: "32 word"
  physical_maximum :: "32 word"
  logical_minimum :: "32 word"
  logical_maximum :: "32 word"
  size_f :: "32 word"
  count_f :: "32 word"
  report_buf_off :: "32 word"

text \<open>\<^verbatim>\<open>get_report_buffer\<close> (\<^verbatim>\<open>hid_parser.c\<close>): the slot pointer, or NULL.\<close>

definition get_report_buffer :: "USBHID_Device_t option \<Rightarrow> bool \<Rightarrow> nat option" where
  "get_report_buffer pDev isLast =
     (case pDev of
        None \<Rightarrow> None
      | Some d \<Rightarrow>
          if report_buffer d = None then None
          else if isLast then Some (unat (report_buffer_last_offset d))
          else (let offset = (if report_buffer_last_offset d \<noteq> 0 then 0 else report_len d)
                in Some (unat offset)))"

text \<open>
  \<^verbatim>\<open>USBHID_getReportBuffer\<close>: an error code, or the values stored through
  \<^verbatim>\<open>ppBuff\<close> and \<^verbatim>\<open>pLen\<close>. Every caller passes a non-NULL \<^verbatim>\<open>ppBuff\<close>.
\<close>

definition USBHID_getReportBuffer ::
  "USBHID_Device_t option \<Rightarrow> bool \<Rightarrow> usbHid_ErrNo_e + (nat \<times> 32 word)" where
  "USBHID_getReportBuffer pDev isLast =
     (case pDev of
        None \<Rightarrow> Inl USBHID_PARAM_INVALID
      | Some d \<Rightarrow>
          (case get_report_buffer pDev isLast of
             None \<Rightarrow> Inl USBHID_BUFFER_NOT_ALLOC
           | Some pReportBuf \<Rightarrow> Inr (pReportBuf, report_len d)))"

text \<open>
  The bytes a device pointer can reach: the report buffer block, nothing for a NULL
  device or a NULL buffer.
\<close>

definition dev_mem :: "USBHID_Device_t option \<Rightarrow> 8 word list" where
  "dev_mem pDev = (case pDev of None \<Rightarrow> [] | Some d \<Rightarrow> (case report_buffer d of None \<Rightarrow> [] | Some b \<Rightarrow> b))"

definition dev_mem_update :: "USBHID_Device_t option \<Rightarrow> 8 word list \<Rightarrow> USBHID_Device_t option" where
  "dev_mem_update pDev b = map_option (\<lambda>d. d\<lparr>report_buffer := Some b\<rparr>) pDev"

section \<open>Fetching reports into the double buffer\<close>

text \<open>
  \<^verbatim>\<open>usbhid_read\<close> and \<^verbatim>\<open>USBHID_fetchReport\<close> return an enumerator of
  \<^verbatim>\<open>usbHid_ErrNo_e\<close> or \<^verbatim>\<open>-EAGAIN\<close>.
\<close>

datatype hid_ret = HID usbHid_ErrNo_e | NEG_EAGAIN

text \<open>
  \<^verbatim>\<open>usbhid_read(pDev, pBuff, len, pActualLen)\<close> with \<^verbatim>\<open>pBuff\<close> a pointer into the
  report buffer. The bytes \<^verbatim>\<open>ch37x_readBlockData\<close> stored are in the buffer whatever
  it returns. The result is the return value, the device and the rest of the chip
  script; \<open>None\<close> is an exhausted script or a write outside the buffer.
\<close>

definition usbhid_read ::
  "USBHID_Device_t \<Rightarrow> nat \<Rightarrow> 32 word \<Rightarrow> chip_resp list \<Rightarrow>
   (hid_ret \<times> USBHID_Device_t \<times> chip_resp list) option" where
  "usbhid_read d pBuff len chip =
     (case endpoint d of
        None \<Rightarrow> Some (HID USBHID_ERROR, d, chip)
      | Some pEP \<Rightarrow>
          (case ch37x_setRetry chip of
             None \<Rightarrow> None
           | Some (ret, chip1) \<Rightarrow>
               if ret \<noteq> CH37X_SUCCESS then Some (HID USBHID_IO_ERROR, d, chip1)
               else
                 (case ch37x_sendToken chip1 of
                    None \<Rightarrow> None
                  | Some (ret, status, chip2) \<Rightarrow>
                      if ret \<noteq> CH37X_SUCCESS then Some (HID USBHID_IO_ERROR, d, chip2)
                      else if status = CH37X_USB_INT_SUCCESS then
                        (case ch37x_readBlockData (ucast len) chip2 of
                           None \<Rightarrow> None
                         | Some (ret, stored, chip3) \<Rightarrow>
                             (let mem = dev_mem (Some d)
                              in if pBuff + length stored \<le> length mem then
                                   (let d1 = d\<lparr>report_buffer := Some (field_put mem pBuff stored)\<rparr>
                                    in if ret \<noteq> CH37X_SUCCESS
                                       then Some (HID USBHID_IO_ERROR, d1, chip3)
                                       else Some (HID USBHID_SUCCESS,
                                                  d1\<lparr>endpoint :=
                                                       Some (pEP\<lparr>data_toggle := \<not> data_toggle pEP\<rparr>)\<rparr>,
                                                  chip3))
                                 else None))
                      else if status = CH37X_PID2STATUS USB_PID_NAK then Some (NEG_EAGAIN, d, chip2)
                      else if status = CH37X_USB_INT_DISCONNECT then Some (HID USBHID_NO_DEV, d, chip2)
                      else Some (HID USBHID_IO_ERROR, d, chip2))))"

definition USBHID_fetchReport ::
  "USBHID_Device_t option \<Rightarrow> chip_resp list \<Rightarrow>
   (hid_ret \<times> USBHID_Device_t option \<times> chip_resp list) option" where
  "USBHID_fetchReport pDev chip =
     (case pDev of
        None \<Rightarrow> Some (HID USBHID_PARAM_INVALID, pDev, chip)
      | Some d \<Rightarrow>
          (case get_report_buffer pDev True of
             None \<Rightarrow> Some (HID USBHID_BUFFER_NOT_ALLOC, pDev, chip)
           | Some pLastReportBuff \<Rightarrow>
               (case usbhid_read d pLastReportBuff (report_len d) chip of
                  None \<Rightarrow> None
                | Some (ret, d1, chip1) \<Rightarrow>
                    if ret = HID USBHID_SUCCESS then
                      Some (HID USBHID_SUCCESS,
                            Some (d1\<lparr>report_buffer_last_offset :=
                                       (if report_buffer_last_offset d1 \<noteq> 0 then 0
                                        else report_len d1)\<rparr>),
                            chip1)
                    else Some (ret, Some d1, chip1))))"

text \<open>
  The chip's part in one successful fetch of the report \<open>pkt\<close>: the retry command is
  accepted, the IN token completes with \<^verbatim>\<open>USB_INT_SUCCESS\<close>, the block read delivers
  \<open>pkt\<close>. \<open>fetch_reports\<close> is one successful \<^verbatim>\<open>USBHID_fetchReport\<close> per report.
\<close>

definition good_fetch :: "8 word list \<Rightarrow> chip_resp list" where
  "good_fetch pkt = [Resp CH37X_SUCCESS 0 [], Resp CH37X_SUCCESS CH37X_USB_INT_SUCCESS [],
                     Resp CH37X_SUCCESS 0 pkt]"

fun fetch_reports :: "USBHID_Device_t \<Rightarrow> 8 word list list \<Rightarrow> USBHID_Device_t option" where
  "fetch_reports d [] = Some d"
| "fetch_reports d (pkt # pkts) =
     (case USBHID_fetchReport (Some d) (good_fetch pkt) of
        Some (HID USBHID_SUCCESS, Some d', chip') \<Rightarrow> fetch_reports d' pkts
      | _ \<Rightarrow> None)"

text \<open>The bytes of a report the read stores: at most \<^verbatim>\<open>(uint8_t)report_len\<close> of them.\<close>

definition stored_bytes :: "USBHID_Device_t \<Rightarrow> 8 word list \<Rightarrow> 8 word list" where
  "stored_bytes d pkt = take (unat (ucast (report_len d) :: 8 word)) pkt"

text \<open>
  The slot an accessor returns, as \<^verbatim>\<open>report_len\<close> bytes; two slots that share no
  byte; a device whose buffer \<^verbatim>\<open>USBHID_allocReportBuffer\<close> allocated
  (\<open>2 \<times> report_len\<close> bytes, offset 0 or \<^verbatim>\<open>report_len\<close>) and whose endpoint is cached.
\<close>

definition slot_bytes :: "USBHID_Device_t \<Rightarrow> bool \<Rightarrow> 8 word list option" where
  "slot_bytes d isLast =
     (case get_report_buffer (Some d) isLast of
        None \<Rightarrow> None
      | Some p \<Rightarrow> field_get (dev_mem (Some d)) p (unat (report_len d)))"

definition slots_disjoint :: "USBHID_Device_t \<Rightarrow> bool" where
  "slots_disjoint d =
     (case (get_report_buffer (Some d) False, get_report_buffer (Some d) True) of
        (Some pc, Some pl) \<Rightarrow> pc + unat (report_len d) \<le> pl \<or> pl + unat (report_len d) \<le> pc
      | _ \<Rightarrow> False)"

definition double_buffered :: "USBHID_Device_t \<Rightarrow> bool" where
  "double_buffered d \<longleftrightarrow>
     (case report_buffer d of None \<Rightarrow> False | Some buf \<Rightarrow> length buf = 2 * unat (report_len d)) \<and>
     (report_buffer_last_offset d = 0 \<or> report_buffer_last_offset d = report_len d) \<and>
     endpoint d \<noteq> None"

definition slot_after :: "USBHID_Device_t \<Rightarrow> 8 word list list \<Rightarrow> bool \<Rightarrow> 8 word list option" where
  "slot_after d pkts isLast =
     (case fetch_reports d pkts of None \<Rightarrow> None | Some d' \<Rightarrow> slot_bytes d' isLast)"

text \<open>A device with 4-byte reports, a zeroed buffer and IN endpoint 0x81.\<close>

definition dev4 :: USBHID_Device_t where
  "dev4 = \<lparr> endpoint = Some \<lparr> ep_addr = 0x81, attributes = 0x03, max_packet = 4, interval = 10,
                               data_toggle = False \<rparr>,
            report_buffer = Some (replicate 8 0), report_len = 4, report_buff_len = 8,
            report_buffer_last_offset = 0 \<rparr>"

section \<open>HID keyboard: the key array\<close>

definition HID_KBD_MAX_KEYS :: nat where
  "HID_KBD_MAX_KEYS = 6"

text \<open>\<^verbatim>\<open>struct HID_Keyboard_t\<close>.\<close>

record HID_Keyboard_t =
  kbd_hid_dev :: "USBHID_Device_t option"
  report_length :: "32 word"
  modifier :: HID_DataDescriptor_t
  keys :: HID_DataDescriptor_t

text \<open>
  The three loops of \<^verbatim>\<open>hidKeyboard_SetKey\<close> over \<^verbatim>\<open>pKeysField[0..5]\<close>, the list
  \<open>ks\<close>. \<^verbatim>\<open>keyCode\<close> is a \<^verbatim>\<open>uint32_t\<close>: a comparison widens the stored byte, a
  store keeps the low eight bits of the code.
\<close>

function key_add :: "8 word list \<Rightarrow> 32 word \<Rightarrow> nat \<Rightarrow> 8 word list" where
  "key_add ks keyCode i =
     (if i < HID_KBD_MAX_KEYS then
        (if ks ! i = 0 then ks[i := ucast keyCode]
         else if ucast (ks ! i) = keyCode then ks
         else key_add ks keyCode (i + 1))
      else ks)"
  by pat_completeness auto
termination
  by (relation "measure (\<lambda>(ks, keyCode, i). HID_KBD_MAX_KEYS - i)") auto

function key_shift :: "8 word list \<Rightarrow> nat \<Rightarrow> 8 word list" where
  "key_shift ks j =
     (if j < HID_KBD_MAX_KEYS - 1 then key_shift (ks[j := ks ! (j + 1)]) (j + 1) else ks)"
  by pat_completeness auto
termination
  by (relation "measure (\<lambda>(ks, j). HID_KBD_MAX_KEYS - 1 - j)") auto

function key_del :: "8 word list \<Rightarrow> 32 word \<Rightarrow> nat \<Rightarrow> 8 word list" where
  "key_del ks keyCode i =
     (if i < HID_KBD_MAX_KEYS then
        (if ucast (ks ! i) = keyCode
         then (key_shift (ks[i := 0]) i)[HID_KBD_MAX_KEYS - 1 := 0]
         else key_del ks keyCode (i + 1))
      else ks)"
  by pat_completeness auto
termination
  by (relation "measure (\<lambda>(ks, keyCode, i). HID_KBD_MAX_KEYS - i)") auto

text \<open>
  \<^verbatim>\<open>hidKeyboard_SetKey\<close>: the return value and the keyboard as the call leaves it. The
  key field is the six bytes at \<^verbatim>\<open>pReportBuff + keys.report_buf_off\<close>.
\<close>

definition hidKeyboard_SetKey ::
  "HID_Keyboard_t option \<Rightarrow> 32 word \<Rightarrow> 32 word \<Rightarrow> bool \<Rightarrow>
   (usbHid_ErrNo_e \<times> HID_Keyboard_t option) option" where
  "hidKeyboard_SetKey pKbd keyCode v isLast =
     (case pKbd of
        None \<Rightarrow> Some (USBHID_PARAM_INVALID, pKbd)
      | Some k \<Rightarrow>
          (case USBHID_getReportBuffer (kbd_hid_dev k) isLast of
             Inl ret \<Rightarrow> Some (ret, pKbd)
           | Inr (pReportBuff, len) \<Rightarrow>
               (let pKeysField = pReportBuff + unat (report_buf_off (keys k));
                    mem = dev_mem (kbd_hid_dev k)
                in case field_get mem pKeysField HID_KBD_MAX_KEYS of
                     None \<Rightarrow> None
                   | Some ks \<Rightarrow>
                       (let ks' = (if v \<noteq> 0 then key_add ks keyCode 0 else key_del ks keyCode 0)
                        in Some (USBHID_SUCCESS,
                                 Some (k\<lparr>kbd_hid_dev :=
                                          dev_mem_update (kbd_hid_dev k)
                                            (field_put mem pKeysField ks')\<rparr>))))))"

text \<open>The key field of a keyboard as the accessor with flag \<open>isLast\<close> sees it.\<close>

definition key_field :: "HID_Keyboard_t \<Rightarrow> bool \<Rightarrow> 8 word list option" where
  "key_field k isLast =
     (case USBHID_getReportBuffer (kbd_hid_dev k) isLast of
        Inl ret \<Rightarrow> None
      | Inr (pReportBuff, len) \<Rightarrow>
          field_get (dev_mem (kbd_hid_dev k)) (pReportBuff + unat (report_buf_off (keys k)))
            HID_KBD_MAX_KEYS)"

text \<open>A sequence of \<^verbatim>\<open>hidKeyboard_SetKey\<close> calls \<open>(keyCode, value)\<close> on one keyboard.\<close>

fun set_keys :: "HID_Keyboard_t \<Rightarrow> (32 word \<times> 32 word) list \<Rightarrow> bool \<Rightarrow> HID_Keyboard_t option" where
  "set_keys k [] isLast = Some k"
| "set_keys k ((keyCode, v) # ops) isLast =
     (case hidKeyboard_SetKey (Some k) keyCode v isLast of
        Some (USBHID_SUCCESS, Some k') \<Rightarrow> set_keys k' ops isLast
      | _ \<Rightarrow> None)"

text \<open>
  Left-packed: nothing but zeros after the first zero. A set: the non-zero entries are
  pairwise different. The index of the first empty slot.
\<close>

fun left_packed :: "8 word list \<Rightarrow> bool" where
  "left_packed [] = True"
| "left_packed (k # ks) = (if k = 0 then list_all (\<lambda>x. x = 0) ks else left_packed ks)"

definition no_dup :: "8 word list \<Rightarrow> bool" where
  "no_dup ks = distinct (filter (\<lambda>k. k \<noteq> 0) ks)"

definition first_empty :: "8 word list \<Rightarrow> nat" where
  "first_empty ks = length (takeWhile (\<lambda>k. k \<noteq> 0) ks)"

text \<open>
  The insertion and the deletion loop once more, by recursion on the array instead of
  an index; \<open>key_add_eq\<close> and \<open>key_del_eq\<close> below prove them equal to the loops above
  for key codes that fit a byte.
\<close>

fun key_add_rec :: "8 word list \<Rightarrow> 8 word \<Rightarrow> 8 word list" where
  "key_add_rec [] b = []"
| "key_add_rec (k # ks) b = (if k = 0 then b # ks else if k = b then k # ks else k # key_add_rec ks b)"

fun key_del_rec :: "8 word list \<Rightarrow> 8 word \<Rightarrow> 8 word list" where
  "key_del_rec [] b = []"
| "key_del_rec (k # ks) b = (if k = b then ks @ [0] else k # key_del_rec ks b)"

text \<open>
  The specification's words for \<^verbatim>\<open>set_key(code, v)\<close> on the key array: a press of a
  code already present is coalesced, a press on a full array is ignored, any other press
  goes into the first empty slot; a release removes the code and compacts the rest to the
  left.
\<close>

definition spec_set_key :: "8 word list \<Rightarrow> 8 word \<Rightarrow> bool \<Rightarrow> 8 word list" where
  "spec_set_key ks b press =
     (if press then
        (if b \<in> set ks then ks
         else if 0 \<notin> set ks then ks
         else ks[first_empty ks := b])
      else (if b \<in> set ks then remove1 b ks @ [0] else ks))"

definition spec_run :: "8 word list \<Rightarrow> (32 word \<times> 32 word) list \<Rightarrow> 8 word list" where
  "spec_run ks ops = foldl (\<lambda>ks (c, v). spec_set_key ks (ucast c) (v \<noteq> 0)) ks ops"

text \<open>The key array after a sequence of calls; \<open>None\<close> when a call fails.\<close>

definition keys_after :: "HID_Keyboard_t \<Rightarrow> (32 word \<times> 32 word) list \<Rightarrow> bool \<Rightarrow> 8 word list option" where
  "keys_after k ops isLast =
     (case set_keys k ops isLast of None \<Rightarrow> None | Some k' \<Rightarrow> key_field k' isLast)"

text \<open>A boot keyboard as \<^verbatim>\<open>hidKeyboard_Open\<close> leaves it: an 8-byte report, a zeroed
  double buffer, the key array at offset 2.\<close>

definition kbd0 :: HID_Keyboard_t where
  "kbd0 = \<lparr> kbd_hid_dev = Some \<lparr> endpoint = None,
                                 report_buffer = Some (replicate 16 0), report_len = 8,
                                 report_buff_len = 16, report_buffer_last_offset = 0 \<rparr>,
            report_length = 8,
            modifier = \<lparr> physical_minimum = 0, physical_maximum = 8, logical_minimum = 0,
                         logical_maximum = 1, size_f = 8, count_f = 1, report_buf_off = 0 \<rparr>,
            keys = \<lparr> physical_minimum = 0, physical_maximum = 255, logical_minimum = 0,
                     logical_maximum = 255, size_f = 8, count_f = 6, report_buf_off = 2 \<rparr> \<rparr>"

section \<open>HID mouse: buttons and axes\<close>

text \<open>\<^verbatim>\<open>struct HID_Mouse_t\<close> (\<^verbatim>\<open>hid_mouse.h\<close>).\<close>

record HID_Mouse_t =
  mouse_hid_dev :: "USBHID_Device_t option"
  mouse_report_len :: "32 word"
  has_report_id_declared :: bool
  report_id_offset :: "8 word"
  button :: HID_DataDescriptor_t
  orientation :: HID_DataDescriptor_t
  wheel :: HID_DataDescriptor_t
  has_wheel :: bool

definition MOUSE_REPORTID_BYTE :: "8 word" where
  "MOUSE_REPORTID_BYTE = 0x01"

text \<open>Little-endian 16- and 32-bit values and their bytes (\<^verbatim>\<open>sys_le16_to_cpu\<close> and
  friends on the bytes \<^verbatim>\<open>memcpy\<close> moves).\<close>

definition le16_of :: "8 word list \<Rightarrow> 16 word" where
  "le16_of bs = ucast (bs ! 0) OR push_bit 8 (ucast (bs ! 1))"

definition le32_of :: "8 word list \<Rightarrow> 32 word" where
  "le32_of bs = ucast (bs ! 0) OR push_bit 8 (ucast (bs ! 1)) OR
                push_bit 16 (ucast (bs ! 2)) OR push_bit 24 (ucast (bs ! 3))"

definition le16_bytes :: "16 word \<Rightarrow> 8 word list" where
  "le16_bytes v = [ucast v, ucast (drop_bit 8 v)]"

definition le32_bytes :: "32 word \<Rightarrow> 8 word list" where
  "le32_bytes v = [ucast v, ucast (drop_bit 8 v), ucast (drop_bit 16 v), ucast (drop_bit 24 v)]"

text \<open>
  \<^verbatim>\<open>hidMouse_GetButton\<close>. The result is an error code (nothing stored) or the value
  stored through \<^verbatim>\<open>pValue\<close> with return value \<^verbatim>\<open>USBHID_SUCCESS\<close>; the callers pass a
  non-NULL \<^verbatim>\<open>pValue\<close>. \<open>None\<close> is a read outside the report buffer.
\<close>

definition hidMouse_GetButton ::
  "HID_Mouse_t option \<Rightarrow> 32 word \<Rightarrow> bool \<Rightarrow> (usbHid_ErrNo_e + 32 word) option" where
  "hidMouse_GetButton pMouse buttonNum isLast =
     (let byteOff = (ucast (buttonNum div 8) :: 8 word);
          bitOff = (ucast (buttonNum mod 8) :: 8 word)
      in case pMouse of
           None \<Rightarrow> Some (Inl USBHID_PARAM_INVALID)
         | Some m \<Rightarrow>
             if buttonNum \<ge> count_f (button m) then Some (Inl USBHID_PARAM_INVALID)
             else
               (case USBHID_getReportBuffer (mouse_hid_dev m) isLast of
                  Inl ret \<Rightarrow> Some (Inl ret)
                | Inr (pReportBuff, len) \<Rightarrow>
                    (let pFieldBuff = pReportBuff + unat (report_buf_off (button m))
                     in case field_get (dev_mem (mouse_hid_dev m)) (pFieldBuff + unat byteOff) 1 of
                          None \<Rightarrow> None
                        | Some bs \<Rightarrow>
                            Some (Inr (if bs ! 0 AND push_bit (unat bitOff) 1 \<noteq> 0 then 1 else 0)))))"

text \<open>
  \<^verbatim>\<open>hidMouse_GetOrientation\<close>, with the same result convention. Axis 2 of a mouse with
  a wheel is read from the wheel field.
\<close>

definition hidMouse_GetOrientation ::
  "HID_Mouse_t option \<Rightarrow> 32 word \<Rightarrow> bool \<Rightarrow> (usbHid_ErrNo_e + 32 word) option" where
  "hidMouse_GetOrientation pMouse axisNum isLast =
     (case pMouse of
        None \<Rightarrow> Some (Inl USBHID_PARAM_INVALID)
      | Some m \<Rightarrow>
          if axisNum = 2 \<and> has_wheel m then
            (case USBHID_getReportBuffer (mouse_hid_dev m) isLast of
               Inl ret \<Rightarrow> Some (Inl ret)
             | Inr (pReportBuff, len) \<Rightarrow>
                 (let pFieldBuff = pReportBuff + unat (report_buf_off (wheel m));
                      valueByteSize = (ucast (size_f (wheel m) div 8) :: 8 word);
                      mem = dev_mem (mouse_hid_dev m)
                  in if valueByteSize = 1 then
                       (case field_get mem pFieldBuff 1 of
                          None \<Rightarrow> None
                        | Some bs \<Rightarrow> Some (Inr (scast (bs ! 0))))
                     else if valueByteSize = 2 then
                       (case field_get mem pFieldBuff 2 of
                          None \<Rightarrow> None
                        | Some bs \<Rightarrow> Some (Inr (scast (le16_of bs))))
                     else Some (Inr 0)))
          else if axisNum \<ge> count_f (orientation m) then Some (Inl USBHID_PARAM_INVALID)
          else
            (case USBHID_getReportBuffer (mouse_hid_dev m) isLast of
               Inl ret \<Rightarrow> Some (Inl ret)
             | Inr (pReportBuff, len) \<Rightarrow>
                 (let pFieldBuff = pReportBuff + unat (report_buf_off (orientation m));
                      valueByteSize = (ucast (size_f (orientation m) div 8) :: 8 word);
                      mem = dev_mem (mouse_hid_dev m)
                  in if valueByteSize = 0 then Some (Inl USBHID_ERROR)
                     else if valueByteSize = 1 then
                       (case field_get mem (pFieldBuff + unat axisNum) 1 of
                          None \<Rightarrow> None
                        | Some bs \<Rightarrow> Some (Inr (scast (bs ! 0))))
                     else if valueByteSize = 2 then
                       (case field_get mem (pFieldBuff + unat (axisNum * 2)) 2 of
                          None \<Rightarrow> None
                        | Some bs \<Rightarrow> Some (Inr (scast (le16_of bs))))
                     else if valueByteSize = 4 then
                       (case field_get mem (pFieldBuff + unat (axisNum * 4)) 4 of
                          None \<Rightarrow> None
                        | Some bs \<Rightarrow> Some (Inr (le32_of bs)))
                     else Some (Inl USBHID_ERROR))))"

text \<open>
  \<^verbatim>\<open>hidMouse_SetOrientation\<close>: the return value and the mouse as the call leaves it;
  \<open>None\<close> is a write outside the report buffer.
\<close>

definition mouse_store :: "HID_Mouse_t \<Rightarrow> nat \<Rightarrow> 8 word list \<Rightarrow> (usbHid_ErrNo_e \<times> HID_Mouse_t option) option" where
  "mouse_store m pos bs =
     (let mem = dev_mem (mouse_hid_dev m)
      in if pos + length bs \<le> length mem
         then Some (USBHID_SUCCESS,
                    Some (m\<lparr>mouse_hid_dev := dev_mem_update (mouse_hid_dev m) (field_put mem pos bs)\<rparr>))
         else None)"

definition hidMouse_SetOrientation ::
  "HID_Mouse_t option \<Rightarrow> 32 word \<Rightarrow> 32 word \<Rightarrow> bool \<Rightarrow>
   (usbHid_ErrNo_e \<times> HID_Mouse_t option) option" where
  "hidMouse_SetOrientation pMouse axisNum v isLast =
     (case pMouse of
        None \<Rightarrow> Some (USBHID_PARAM_INVALID, pMouse)
      | Some m \<Rightarrow>
          if axisNum \<ge> count_f (orientation m) then Some (USBHID_PARAM_INVALID, pMouse)
          else
            (case USBHID_getReportBuffer (mouse_hid_dev m) isLast of
               Inl ret \<Rightarrow> Some (ret, pMouse)
             | Inr (pReportBuff, len) \<Rightarrow>
                 (let pFieldBuff = pReportBuff + unat (report_buf_off (orientation m));
                      valueByteSize = (ucast (size_f (orientation m) div 8) :: 8 word)
                  in if valueByteSize = 0 then Some (USBHID_ERROR, pMouse)
                     else if valueByteSize = 1 then
                       mouse_store m (pFieldBuff + unat axisNum) [ucast v]
                     else if valueByteSize = 2 then
                       mouse_store m (pFieldBuff + unat (axisNum * 2)) (le16_bytes (ucast v))
                     else if valueByteSize = 4 then
                       mouse_store m (pFieldBuff + unat (axisNum * 4)) (le32_bytes v)
                     else Some (USBHID_ERROR, pMouse))))"

text \<open>\<^verbatim>\<open>set_orientation\<close> followed by \<^verbatim>\<open>get_orientation\<close> on the same buffer.\<close>

definition set_then_get ::
  "HID_Mouse_t \<Rightarrow> 32 word \<Rightarrow> 32 word \<Rightarrow> bool \<Rightarrow> (usbHid_ErrNo_e + 32 word) option" where
  "set_then_get m axisNum v isLast =
     (case hidMouse_SetOrientation (Some m) axisNum v isLast of
        Some (USBHID_SUCCESS, Some m') \<Rightarrow> hidMouse_GetOrientation (Some m') axisNum isLast
      | Some (ret, _) \<Rightarrow> Some (Inl ret)
      | None \<Rightarrow> None)"

text \<open>
  The value a field of \<open>w\<close> bits gives back for a stored \<open>v\<close>: the low \<open>w\<close> bits of
  \<open>v\<close>, sign-extended to 32 bits. A value is representable in \<open>w\<close> bits when it lies in
  \<open>-2^(w-1) \<dots> 2^(w-1) - 1\<close>.
\<close>

definition sext_trunc :: "nat \<Rightarrow> 32 word \<Rightarrow> 32 word" where
  "sext_trunc w v = signed_take_bit (w - 1) v"

definition representable :: "nat \<Rightarrow> 32 word \<Rightarrow> bool" where
  "representable w v \<longleftrightarrow> - (2 ^ (w - 1)) \<le> sint v \<and> sint v < 2 ^ (w - 1)"

text \<open>
  The bytes of axis \<open>axisNum\<close> of the orientation field lie inside the report buffer
  the accessor selects.
\<close>

definition axis_in_buffer :: "HID_Mouse_t \<Rightarrow> 32 word \<Rightarrow> bool \<Rightarrow> bool" where
  "axis_in_buffer m axisNum isLast =
     (case USBHID_getReportBuffer (mouse_hid_dev m) isLast of
        Inl ret \<Rightarrow> False
      | Inr (pReportBuff, len) \<Rightarrow>
          pReportBuff + unat (report_buf_off (orientation m))
            + unat (axisNum * (size_f (orientation m) div 8)) + unat (size_f (orientation m) div 8)
          \<le> length (dev_mem (mouse_hid_dev m)))"

text \<open>
  A mouse as \<^verbatim>\<open>parse_hid_report\<close> leaves it for a descriptor with eight buttons, two
  16-bit axes and an 8-bit wheel. The only store to the count of the orientation field
  is \<^verbatim>\<open>pOrient->count = 2\<close> in \<^verbatim>\<open>parse_hid_report\<close>: a mouse has the axes X and Y.
\<close>

definition mouse0 :: HID_Mouse_t where
  "mouse0 = \<lparr> mouse_hid_dev = Some \<lparr> endpoint = None, report_buffer = Some (replicate 16 0),
                                     report_len = 8, report_buff_len = 16,
                                     report_buffer_last_offset = 0 \<rparr>,
              mouse_report_len = 8, has_report_id_declared = False, report_id_offset = 0,
              button = \<lparr> physical_minimum = 0, physical_maximum = 0, logical_minimum = 0,
                         logical_maximum = 1, size_f = 1, count_f = 8, report_buf_off = 0 \<rparr>,
              orientation = \<lparr> physical_minimum = 0, physical_maximum = 0,
                              logical_minimum = 0x8001, logical_maximum = 0x7FFF,
                              size_f = 16, count_f = 2, report_buf_off = 1 \<rparr>,
              wheel = \<lparr> physical_minimum = 0, physical_maximum = 0, logical_minimum = 0x81,
                        logical_maximum = 0x7F, size_f = 8, count_f = 1, report_buf_off = 5 \<rparr>,
              has_wheel = True \<rparr>"

section \<open>Normalised mouse output report\<close>

definition HID_OUTPUT_REPORT_SIZE :: nat where
  "HID_OUTPUT_REPORT_SIZE = 6"

text \<open>The values \<^verbatim>\<open>hidOutput_buildMouseReport\<close> returns: \<open>0\<close>, \<^verbatim>\<open>-EINVAL\<close>,
  \<^verbatim>\<open>-EIO\<close> and \<^verbatim>\<open>-EAGAIN\<close>.\<close>

datatype out_ret = OUT_SUCCESS | OUT_EINVAL | OUT_EIO | OUT_EAGAIN

text \<open>
  The button loop \<^verbatim>\<open>for (i = 0; i < 8 && i < pMouse->button.count; i++)\<close>: bit \<open>i\<close>
  is set when \<^verbatim>\<open>hidMouse_GetButton\<close> succeeds with a non-zero value.
\<close>

function build_buttons :: "HID_Mouse_t \<Rightarrow> nat \<Rightarrow> 8 word \<Rightarrow> 8 word option" where
  "build_buttons m i buttons =
     (if i < 8 \<and> (of_nat i :: 32 word) < count_f (button m) then
        (case hidMouse_GetButton (Some m) (of_nat i) False of
           None \<Rightarrow> None
         | Some (Inl ret) \<Rightarrow> build_buttons m (i + 1) buttons
         | Some (Inr v) \<Rightarrow>
             build_buttons m (i + 1) (if v \<noteq> 0 then buttons OR push_bit i 1 else buttons))
      else Some buttons)"
  by pat_completeness auto
termination
  by (relation "measure (\<lambda>(m, i, buttons). 8 - i)") auto

text \<open>
  \<^verbatim>\<open>hidOutput_buildMouseReport\<close>: the return value and the six bytes of
  \<^verbatim>\<open>pOutReport\<close> as the call leaves them (\<open>None\<close> inside for a NULL pointer); the
  outer \<open>None\<close> is a read outside the report buffer. The two static counters only
  steer logging. \<^verbatim>\<open>(uint16_t)xValue\<close> keeps the low 16 bits; the wheel value is
  clamped to \<open>-128 \<dots> 127\<close> before its low byte is stored.
\<close>

definition clamp_wheel :: "32 word \<Rightarrow> 32 word" where
  "clamp_wheel wheelValue =
     (let w1 = (if sint wheelValue > 127 then 127 else wheelValue)
      in if sint w1 < - 128 then - 128 else w1)"

definition build_axes :: "HID_Mouse_t \<Rightarrow> 8 word list \<Rightarrow> (out_ret \<times> 8 word list option) option" where
  "build_axes m out2 =
     (case hidMouse_GetOrientation (Some m) 0 False of
        None \<Rightarrow> None
      | Some (Inl ret) \<Rightarrow> Some (OUT_EIO, Some out2)
      | Some (Inr xValue) \<Rightarrow>
          (case hidMouse_GetOrientation (Some m) 1 False of
             None \<Rightarrow> None
           | Some (Inl ret) \<Rightarrow> Some (OUT_EIO, Some out2)
           | Some (Inr yValue) \<Rightarrow>
               (let out3 = field_put (field_put out2 1 (le16_bytes (ucast xValue))) 3
                             (le16_bytes (ucast yValue))
                in if has_wheel m then
                     (case hidMouse_GetOrientation (Some m) 2 False of
                        None \<Rightarrow> None
                      | Some (Inl ret) \<Rightarrow> Some (OUT_EIO, Some out3)
                      | Some (Inr wheelValue) \<Rightarrow>
                          Some (OUT_SUCCESS, Some (out3[5 := ucast (clamp_wheel wheelValue)])))
                   else Some (OUT_SUCCESS, Some (out3[5 := ucast (0 :: 32 word)])))))"

definition build_body :: "HID_Mouse_t \<Rightarrow> (out_ret \<times> 8 word list option) option" where
  "build_body m =
     (let out1 = replicate HID_OUTPUT_REPORT_SIZE 0
      in case build_buttons m 0 0 of
           None \<Rightarrow> None
         | Some buttons \<Rightarrow> build_axes m (out1[0 := buttons]))"

definition hidOutput_buildMouseReport ::
  "HID_Mouse_t option \<Rightarrow> 8 word list option \<Rightarrow> (out_ret \<times> 8 word list option) option" where
  "hidOutput_buildMouseReport pMouse pOutReport =
     (case (pMouse, pOutReport) of
        (Some m, Some out) \<Rightarrow>
          if has_report_id_declared m \<and> report_id_offset m = 1 then
            (case USBHID_getReportBuffer (mouse_hid_dev m) False of
               Inl ret \<Rightarrow> Some (OUT_EIO, pOutReport)
             | Inr (pInputBuff, inputLen) \<Rightarrow>
                 (case field_get (dev_mem (mouse_hid_dev m)) pInputBuff 1 of
                    None \<Rightarrow> None
                  | Some bs \<Rightarrow>
                      (let reportID = bs ! 0
                       in if reportID \<noteq> MOUSE_REPORTID_BYTE then Some (OUT_EAGAIN, pOutReport)
                          else build_body m)))
          else build_body m
      | _ \<Rightarrow> Some (OUT_EINVAL, pOutReport))"

text \<open>
  The specification's words for bytes 1 to 4 of the output: the axis value as a
  little-endian \<^verbatim>\<open>int16\<close>, saturating.
\<close>

definition sat_i16 :: "32 word \<Rightarrow> 16 word" where
  "sat_i16 v = (if sint v > 32767 then 32767 else if sint v < - 32768 then - 32768 else ucast v)"

text \<open>
  A mouse with a button byte and two 32-bit axes, holding the report
  \<open>buttons = 0x05, X = 70000, Y = -40000\<close> in its current slot.
\<close>

definition mouse32 :: HID_Mouse_t where
  "mouse32 = \<lparr> mouse_hid_dev = Some \<lparr> endpoint = None,
                   report_buffer = Some ([0x05, 0x70, 0x11, 0x01, 0x00, 0xC0, 0x63, 0xFF, 0xFF]
                                         @ replicate 9 0),
                   report_len = 9, report_buff_len = 18, report_buffer_last_offset = 9 \<rparr>,
               mouse_report_len = 9, has_report_id_declared = False, report_id_offset = 0,
               button = \<lparr> physical_minimum = 0, physical_maximum = 0, logical_minimum = 0,
                          logical_maximum = 1, size_f = 1, count_f = 8, report_buf_off = 0 \<rparr>,
               orientation = \<lparr> physical_minimum = 0, physical_maximum = 0,
                               logical_minimum = 0x80000001, logical_maximum = 0x7FFFFFFF,
                               size_f = 32, count_f = 2, report_buf_off = 1 \<rparr>,
               wheel = \<lparr> physical_minimum = 0, physical_maximum = 0, logical_minimum = 0,
                         logical_maximum = 0, size_f = 0, count_f = 0, report_buf_off = 0 \<rparr>,
               has_wheel = False \<rparr>"

section \<open>Results: baud rate\<close>

lemma ch375_setBaudrate_unsupported:
  "ch375_baud_switch b = None \<Longrightarrow> ch375_setBaudrate pCtx b l = (CH37X_PARAM_INVALID, l)"
  by (simp add: ch375_setBaudrate_def)

lemma ch376s_setBaudrate_table:
  "ch376s_setBaudrate (Some rec_link_b) 9600 [] = (CH37X_SUCCESS, [0x02, 0x02, 0xB2])"
  "ch376s_setBaudrate (Some rec_link_b) 115200 [] = (CH37X_SUCCESS, [0x02, 0x03, 0xCC])"
  by (simp_all add: ch376s_setBaudrate_def ch376s_baud_switch_def ch376s_writeByte_def
      rec_link_b_def CH376S_CMD_SET_BAUDRATE_def)

lemma ch376s_setBaudrate_unsupported:
  "b \<noteq> 9600 \<Longrightarrow> b \<noteq> 115200 \<Longrightarrow> ch376s_setBaudrate pCtx b l = (CH37X_PARAM_INVALID, l)"
  by (simp add: ch376s_setBaudrate_def ch376s_baud_switch_def)

text \<open>
  C6. The claim: for each baud rate of the table, \<^verbatim>\<open>set_baud\<close> writes SET_BAUDRATE and
  then exactly the two coefficient bytes of that entry. The table entry of 921600 is
  \<open>(0x07, 0xF3)\<close>. At 921600 the CH375 driver writes SET_BAUDRATE and then
  \<open>0x03, 0xC4\<close>, the bytes of the entry of 100000: the case body of 921600 falls through
  into the next one.
\<close>

theorem ch375_setBaudrate_921600_falls_through:
  "ch375_setBaudrate (Some rec_link) 921600 [] =
     (CH37X_SUCCESS, [(True, 0x02), (False, 0x03), (False, 0xC4)])
   \<and> (921600, 0x07, 0xF3) \<in> set ch375_baud_table"
  by (simp add: ch375_setBaudrate_def ch375_baud_switch_def baud_body_921600_def
      baud_body_100000_def ch375_writeCmd_def ch375_writeData_def rec_link_def
      CH375_CMD_SET_BAUDRATE_def ch375_baud_table_def)

section \<open>Results: recoil sequencer\<close>

lemma recoilComp_cbTimeElapsed_eq: "recoilComp_cbTimeElapsed start now = now - start"
  by (simp add: recoilComp_cbTimeElapsed_def)

text \<open>
  C10. On an initialised context with allocated tick arrays, a call of
  \<^verbatim>\<open>recoilComp_getNextData\<close> that does not emit (the index has reached the array
  length, or the elapsed time is below \<^verbatim>\<open>pTs[arrIndex]\<close>) returns the no-data result
  and leaves the context and the output structure as they were. A call that emits returns
  \<open>(pX[arrIndex], -pY[arrIndex])\<close>, adds exactly \<^verbatim>\<open>pTs[arrIndex]\<close> to
  \<^verbatim>\<open>lastTickMs\<close> whatever the current time is, and adds one to \<^verbatim>\<open>arrIndex\<close>; the
  arrays, their length and the flags stay as they were. The call never reads outside the
  arrays.
\<close>

theorem recoilComp_getNextData_step:
  assumes "recoil_ready c"
  shows "recoilComp_getNextData (Some c) (Some d) uptime =
           Some (if arrIndex c < arrLen c \<and>
                    recoilComp_cbTimeElapsed (lastTickMs c) uptime \<ge> pTs c ! nat (arrIndex c)
                 then (RC_DATA,
                       Some (c\<lparr>lastTickMs := lastTickMs c + pTs c ! nat (arrIndex c),
                               arrIndex := arrIndex c + 1\<rparr>),
                       Some (d\<lparr>comp_x := pX c ! nat (arrIndex c),
                               comp_y := - (pY c ! nat (arrIndex c))\<rparr>))
                 else (RC_NO_DATA, Some c, Some d))"
  using assms
  by (auto simp: recoil_ready_def recoilComp_getNextData_def arr_read_def Let_def)

text \<open>
  The theorem at a context with one tick \<open>(3, 7, 8)\<close> and \<^verbatim>\<open>lastTickMs = 100\<close>: at
  time 120 the tick is emitted as \<open>(3, -7)\<close> and \<^verbatim>\<open>lastTickMs\<close> becomes 108, not
  120; at time 101 nothing is emitted and nothing changes.
\<close>

theorem recoilComp_getNextData_step_witness:
  "recoil_ready \<lparr>stateFlags = 5, pX = [3], pY = [7], pTs = [8], arrLen = 1, arrIndex = 0,
                  lastTickMs = 100\<rparr>
   \<and> recoilComp_getNextData
        (Some \<lparr>stateFlags = 5, pX = [3], pY = [7], pTs = [8], arrLen = 1, arrIndex = 0,
                lastTickMs = 100\<rparr>)
        (Some \<lparr>comp_x = 0, comp_y = 0\<rparr>) 120
       = Some (RC_DATA,
               Some \<lparr>stateFlags = 5, pX = [3], pY = [7], pTs = [8], arrLen = 1, arrIndex = 1,
                      lastTickMs = 108\<rparr>,
               Some \<lparr>comp_x = 3, comp_y = - 7\<rparr>)
   \<and> recoilComp_getNextData
        (Some \<lparr>stateFlags = 5, pX = [3], pY = [7], pTs = [8], arrLen = 1, arrIndex = 0,
                lastTickMs = 100\<rparr>)
        (Some \<lparr>comp_x = 0, comp_y = 0\<rparr>) 101
       = Some (RC_NO_DATA,
               Some \<lparr>stateFlags = 5, pX = [3], pY = [7], pTs = [8], arrLen = 1, arrIndex = 0,
                      lastTickMs = 100\<rparr>,
               Some \<lparr>comp_x = 0, comp_y = 0\<rparr>)"
proof -
  let ?c = "\<lparr>stateFlags = 5, pX = [3], pY = [7], pTs = [8], arrLen = 1, arrIndex = 0,
             lastTickMs = 100\<rparr>"
  have r: "recoil_ready ?c"
    by (simp add: recoil_ready_def RECOIL_COMP_STATE_INITIALIZED_def
        RECOIL_COMP_STATE_ARRAYS_ALLOCATED_def)
  show ?thesis
    using r recoilComp_getNextData_step [OF r, of "\<lparr>comp_x = 0, comp_y = 0\<rparr>" 120]
      recoilComp_getNextData_step [OF r, of "\<lparr>comp_x = 0, comp_y = 0\<rparr>" 101]
    by (simp add: recoilComp_cbTimeElapsed_def word_le_nat_alt)
qed

section \<open>Results: keyboard key array\<close>

lemma byte_code_eq:
  fixes kc :: "32 word" and b :: "8 word"
  assumes "kc \<le> 0xFF"
  shows "(ucast b = kc) = (b = ucast kc)"
proof
  assume "ucast b = kc" then show "b = ucast kc" by (auto simp: ucast_up_ucast_id is_up)
next
  assume b: "b = ucast kc"
  have "unat kc < 256" using assms by (simp add: word_le_nat_alt)
  then show "ucast b = kc" unfolding b
    by (simp add: word_eq_iff_unsigned [where ?'a = nat] unsigned_ucast_eq take_bit_eq_mod
        unat_mod_distrib)
qed

lemma length_key_add_rec [simp]: "length (key_add_rec ks b) = length ks"
  by (induction ks) auto

lemma length_key_del_rec [simp]: "length (key_del_rec ks b) = length ks"
  by (induction ks) auto

lemma key_add_eq:
  assumes "length ks = 6" "kc \<le> 0xFF" "i \<le> 6"
  shows "key_add ks kc i = take i ks @ key_add_rec (drop i ks) (ucast kc)"
  using assms
proof (induction ks kc i rule: key_add.induct)
  case (1 ks kc i)
  show ?case
  proof (cases "i < 6")
    case False
    with 1 show ?thesis by (simp add: HID_KBD_MAX_KEYS_def)
  next
    case True
    then have d: "drop i ks = ks ! i # drop (Suc i) ks"
      using 1(2) by (simp add: Cons_nth_drop_Suc)
    show ?thesis
    proof (cases "ks ! i = 0")
      case z: True
      then show ?thesis using True 1(2)
        by (subst key_add.simps) (simp add: HID_KBD_MAX_KEYS_def d upd_conv_take_nth_drop)
    next
      case nz: False
      show ?thesis
      proof (cases "ks ! i = ucast kc")
        case True
        then show ?thesis using \<open>i < 6\<close> nz 1(2,3) id_take_nth_drop [of i ks]
          by (subst key_add.simps) (simp add: HID_KBD_MAX_KEYS_def d byte_code_eq)
      next
        case False
        have "key_add ks kc i = key_add ks kc (i + 1)"
          using \<open>i < 6\<close> nz False 1(3)
          by (subst key_add.simps) (simp add: HID_KBD_MAX_KEYS_def byte_code_eq)
        also have "\<dots> = take (i + 1) ks @ key_add_rec (drop (i + 1) ks) (ucast kc)"
          using 1(1)[OF _ nz _ 1(2,3)] \<open>i < 6\<close> False 1(3)
          by (simp add: HID_KBD_MAX_KEYS_def byte_code_eq)
        also have "\<dots> = take i ks @ key_add_rec (drop i ks) (ucast kc)"
          using \<open>i < 6\<close> nz False 1(2) by (simp add: d take_Suc_conv_app_nth)
        finally show ?thesis .
      qed
    qed
  qed
qed

lemma key_shift_eq:
  assumes "length ks = 6" "j \<le> 5"
  shows "key_shift ks j = take j ks @ drop (j + 1) ks @ [ks ! 5]"
  using assms
proof (induction ks j rule: key_shift.induct)
  case (1 ks j)
  show ?case
  proof (cases "j < 5")
    case False
    with 1(3) have j: "j = 5" by simp
    have "take 5 ks @ [ks ! 5] = ks"
      using 1(2) take_Suc_conv_app_nth [of 5 ks] by simp
    then show ?thesis using 1(2) j
      by (subst key_shift.simps) (simp add: HID_KBD_MAX_KEYS_def)
  next
    case True
    have "key_shift ks j = key_shift (ks[j := ks ! (j + 1)]) (j + 1)"
      using True by (subst key_shift.simps) (simp add: HID_KBD_MAX_KEYS_def)
    also have "\<dots> = take (j + 1) (ks[j := ks ! (j + 1)]) @ drop (j + 2) (ks[j := ks ! (j + 1)]) @ [ks[j := ks ! (j + 1)] ! 5]"
      using 1(1) True 1(2) by (simp add: HID_KBD_MAX_KEYS_def)
    also have "\<dots> = take j ks @ drop (j + 1) ks @ [ks ! 5]"
      using True 1(2) by (simp add: take_Suc_conv_app_nth Cons_nth_drop_Suc)
    finally show ?thesis .
  qed
qed

lemma key_del_eq:
  assumes "length ks = 6" "kc \<le> 0xFF" "i \<le> 6"
  shows "key_del ks kc i = take i ks @ key_del_rec (drop i ks) (ucast kc)"
  using assms
proof (induction ks kc i rule: key_del.induct)
  case (1 ks kc i)
  show ?case
  proof (cases "i < 6")
    case False
    with 1 show ?thesis by (simp add: HID_KBD_MAX_KEYS_def)
  next
    case True
    then have d: "drop i ks = ks ! i # drop (Suc i) ks"
      using 1(2) by (simp add: Cons_nth_drop_Suc)
    show ?thesis
    proof (cases "ks ! i = ucast kc")
      case hit: True
      have "key_del ks kc i = (key_shift (ks[i := 0]) i)[5 := 0]"
        using True hit 1(3) by (subst key_del.simps) (simp add: HID_KBD_MAX_KEYS_def byte_code_eq)
      also have "key_shift (ks[i := 0]) i = take i ks @ drop (i + 1) ks @ [(ks[i := 0]) ! 5]"
        using key_shift_eq [of "ks[i := 0]" i] True 1(2) by simp
      also have "(take i ks @ drop (i + 1) ks @ [(ks[i := 0]) ! 5])[5 := 0]
                 = take i ks @ drop (i + 1) ks @ [0]"
        using True 1(2) by (simp add: list_update_append)
      finally show ?thesis using hit by (simp add: d)
    next
      case miss: False
      have "key_del ks kc i = key_del ks kc (i + 1)"
        using True miss 1(3) by (subst key_del.simps) (simp add: HID_KBD_MAX_KEYS_def byte_code_eq)
      also have "\<dots> = take (i + 1) ks @ key_del_rec (drop (i + 1) ks) (ucast kc)"
        using 1(1) True miss 1(2,3) by (simp add: HID_KBD_MAX_KEYS_def byte_code_eq)
      also have "\<dots> = take i ks @ key_del_rec (drop i ks) (ucast kc)"
        using True miss 1(2) by (simp add: d take_Suc_conv_app_nth)
      finally show ?thesis .
    qed
  qed
qed

lemma zeros_left_packed: "list_all (\<lambda>x. x = 0) ks \<Longrightarrow> left_packed ks"
  by (induction ks) auto

lemma left_packed_key_add_rec: "left_packed ks \<Longrightarrow> left_packed (key_add_rec ks b)"
  by (induction ks) (auto simp: zeros_left_packed)

lemma set_key_add_rec: "set (key_add_rec ks b) \<subseteq> insert b (set ks)"
  by (induction ks) auto

lemma no_dup_key_add_rec: "left_packed ks \<Longrightarrow> no_dup ks \<Longrightarrow> no_dup (key_add_rec ks b)"
proof (induction ks)
  case Nil
  then show ?case by simp
next
  case (Cons k ks)
  show ?case
  proof (cases "k = 0")
    case True
    with Cons.prems have "list_all (\<lambda>x. x = 0) ks" by simp
    then have "filter (\<lambda>k. k \<noteq> 0) ks = []" by (induction ks) auto
    with True show ?thesis by (simp add: no_dup_def)
  next
    case False
    with Cons have ih: "no_dup (key_add_rec ks b)" by (simp add: no_dup_def)
    from Cons.prems False have "k \<notin> set ks" by (simp add: no_dup_def)
    with set_key_add_rec [of ks b] have "k \<noteq> b \<Longrightarrow> k \<notin> set (key_add_rec ks b)" by auto
    with ih False Cons.prems show ?thesis by (auto simp: no_dup_def)
  qed
qed

lemma zeros_key_del_rec: "list_all (\<lambda>x. x = 0) ks \<Longrightarrow> list_all (\<lambda>x. x = 0) (key_del_rec ks b)"
  by (induction ks) auto

lemma left_packed_snoc0: "left_packed ks \<Longrightarrow> left_packed (ks @ [0])"
  by (induction ks) auto

lemma left_packed_key_del_rec: "left_packed ks \<Longrightarrow> left_packed (key_del_rec ks b)"
  by (induction ks) (auto simp: zeros_key_del_rec left_packed_snoc0 zeros_left_packed)

lemma filter_key_del_rec:
  "filter (\<lambda>k. k \<noteq> 0) (key_del_rec ks b) =
     (if b \<noteq> 0 then remove1 b (filter (\<lambda>k. k \<noteq> 0) ks) else filter (\<lambda>k. k \<noteq> 0) ks)"
  by (induction ks) auto

lemma no_dup_key_del_rec: "no_dup ks \<Longrightarrow> no_dup (key_del_rec ks b)"
  by (simp add: no_dup_def filter_key_del_rec)

lemma key_add_rec_spec:
  "left_packed ks \<Longrightarrow> key_add_rec ks b = spec_set_key ks b True"
  by (induction ks) (auto simp: spec_set_key_def first_empty_def list_all_iff)

lemma key_del_rec_spec: "key_del_rec ks b = spec_set_key ks b False"
  by (induction ks) (auto simp: spec_set_key_def)

lemma field_get_length: "field_get buf base n = Some ks \<Longrightarrow> length ks = n \<and> base + n \<le> length buf"
  by (auto simp: field_get_def split: if_splits)

lemma field_get_put: "base + length bs \<le> length buf \<Longrightarrow> field_get (field_put buf base bs) base (length bs) = Some bs"
  by (simp add: field_get_def field_put_def)

lemma getReportBuffer_update:
  "USBHID_getReportBuffer d isLast = Inr r \<Longrightarrow>
   USBHID_getReportBuffer (dev_mem_update d m) isLast = Inr r \<and> dev_mem (dev_mem_update d m) = m"
  by (auto simp: USBHID_getReportBuffer_def get_report_buffer_def dev_mem_update_def dev_mem_def Let_def
      split: option.splits if_splits)

lemma SetKey_step:
  assumes "key_field k isLast = Some ks" "kc \<le> 0xFF"
  shows "\<exists>k'. hidKeyboard_SetKey (Some k) kc v isLast = Some (USBHID_SUCCESS, Some k') \<and>
          key_field k' isLast = Some (if v \<noteq> 0 then key_add_rec ks (ucast kc) else key_del_rec ks (ucast kc))"
proof -
  from assms(1) obtain p len where
    g: "USBHID_getReportBuffer (kbd_hid_dev k) isLast = Inr (p, len)" and
    f: "field_get (dev_mem (kbd_hid_dev k)) (p + unat (report_buf_off (keys k))) HID_KBD_MAX_KEYS = Some ks"
    by (auto simp: key_field_def split: sum.splits)
  from field_get_length [OF f] have l: "length ks = 6"
    and b: "p + unat (report_buf_off (keys k)) + 6 \<le> length (dev_mem (kbd_hid_dev k))"
    by (simp_all add: HID_KBD_MAX_KEYS_def)
  let ?ks' = "if v \<noteq> 0 then key_add_rec ks (ucast kc) else key_del_rec ks (ucast kc)"
  have e: "(if v \<noteq> 0 then key_add ks kc 0 else key_del ks kc 0) = ?ks'"
    using key_add_eq [OF l assms(2), of 0] key_del_eq [OF l assms(2), of 0] by simp
  have l': "length ?ks' = 6" using l by simp
  let ?m = "field_put (dev_mem (kbd_hid_dev k)) (p + unat (report_buf_off (keys k))) ?ks'"
  let ?k' = "k\<lparr>kbd_hid_dev := dev_mem_update (kbd_hid_dev k) ?m\<rparr>"
  have 1: "hidKeyboard_SetKey (Some k) kc v isLast = Some (USBHID_SUCCESS, Some ?k')"
    unfolding hidKeyboard_SetKey_def using g f e by (simp add: Let_def)
  have "length ?m = length (dev_mem (kbd_hid_dev k))"
    using b l' by (simp add: field_put_def)
  have 2: "key_field ?k' isLast = Some ?ks'"
    using getReportBuffer_update [OF g, of ?m] field_get_put [of "p + unat (report_buf_off (keys k))" ?ks' "dev_mem (kbd_hid_dev k)"] b l'
    by (simp add: key_field_def HID_KBD_MAX_KEYS_def)
  from 1 2 show ?thesis by blast
qed

lemma left_packed_spec: "left_packed ks \<Longrightarrow> left_packed (spec_set_key ks b p)"
  using left_packed_key_add_rec [of ks b] left_packed_key_del_rec [of ks b]
  by (cases p) (simp_all add: key_add_rec_spec key_del_rec_spec)

lemma no_dup_spec: "left_packed ks \<Longrightarrow> no_dup ks \<Longrightarrow> no_dup (spec_set_key ks b p)"
  using no_dup_key_add_rec [of ks b] no_dup_key_del_rec [of ks b]
  by (cases p) (simp_all add: key_add_rec_spec key_del_rec_spec)

lemma set_keys_run:
  assumes "key_field k isLast = Some ks" "left_packed ks" "no_dup ks"
    and "\<forall>(c, v) \<in> set ops. c \<le> 0xFF"
  shows "\<exists>k'. set_keys k ops isLast = Some k' \<and> key_field k' isLast = Some (spec_run ks ops) \<and>
          left_packed (spec_run ks ops) \<and> no_dup (spec_run ks ops)"
  using assms
proof (induction ops arbitrary: k ks)
  case Nil
  then show ?case by (simp add: spec_run_def)
next
  case (Cons op ops)
  obtain c v where op: "op = (c, v)" by (cases op)
  with Cons.prems(4) have c: "c \<le> 0xFF" and rest: "\<forall>(c, v) \<in> set ops. c \<le> 0xFF" by auto
  from SetKey_step [OF Cons.prems(1) c, of v] obtain k1 where
    s: "hidKeyboard_SetKey (Some k) c v isLast = Some (USBHID_SUCCESS, Some k1)" and
    f: "key_field k1 isLast = Some (if v \<noteq> 0 then key_add_rec ks (ucast c) else key_del_rec ks (ucast c))"
    by blast
  have e: "(if v \<noteq> 0 then key_add_rec ks (ucast c) else key_del_rec ks (ucast c)) = spec_set_key ks (ucast c) (v \<noteq> 0)"
    using Cons.prems(2) by (simp add: key_add_rec_spec key_del_rec_spec)
  from Cons.IH [OF f [unfolded e] left_packed_spec [OF Cons.prems(2)] no_dup_spec [OF Cons.prems(2,3)] rest]
  show ?case using s by (simp add: op spec_run_def)
qed


text \<open>
  C8, as amended. Starting from an all-zero key array, every sequence of
  \<^verbatim>\<open>hidKeyboard_SetKey\<close> calls whose key codes fit the array's 8-bit slots (at most
  0xFF) succeeds and leaves the array the specification describes: a press goes into the
  first empty slot, a press of a code already present is coalesced, a press on a full
  array is ignored, a release removes the code and compacts the rest to the left. The
  array stays left-packed (no non-zero entry after a zero entry) and free of duplicates.
\<close>

theorem hidKeyboard_SetKey_left_packed_set:
  assumes "key_field k isLast = Some (replicate HID_KBD_MAX_KEYS 0)"
    and "\<forall>(c, v) \<in> set ops. c \<le> 0xFF"
  shows "keys_after k ops isLast = Some (spec_run (replicate HID_KBD_MAX_KEYS 0) ops) \<and>
         left_packed (spec_run (replicate HID_KBD_MAX_KEYS 0) ops) \<and>
         no_dup (spec_run (replicate HID_KBD_MAX_KEYS 0) ops)"
proof -
  have "left_packed (replicate HID_KBD_MAX_KEYS 0)" "no_dup (replicate HID_KBD_MAX_KEYS 0)"
    by (simp_all add: HID_KBD_MAX_KEYS_def no_dup_def eval_nat_numeral)
  from set_keys_run [OF assms(1) this assms(2)] show ?thesis
    by (auto simp: keys_after_def)
qed

text \<open>
  The theorem on \<open>kbd0\<close>: press a, b, c, d, e, f; press g (the seventh key, ignored);
  press b again (coalesced); release b. The array is \<open>[4, 6, 7, 8, 9, 0]\<close>.
\<close>

theorem hidKeyboard_SetKey_left_packed_set_witness:
  "keys_after kbd0 [(4, 1), (5, 1), (6, 1), (7, 1), (8, 1), (9, 1), (10, 1), (5, 1), (5, 0)] False
     = Some [4, 6, 7, 8, 9, 0]
   \<and> left_packed [4, 6, 7, 8, 9, 0] \<and> no_dup [4, 6, 7, 8, 9, 0]"
proof -
  let ?ops = "[(4, 1), (5, 1), (6, 1), (7, 1), (8, 1), (9, 1), (10, 1), (5, 1), (5, 0)]
                :: (32 word \<times> 32 word) list"
  have z: "key_field kbd0 False = Some (replicate HID_KBD_MAX_KEYS 0)"
    by code_simp
  have b: "\<forall>(c, v) \<in> set ?ops. c \<le> 0xFF"
    by (simp add: word_le_nat_alt)
  have r: "spec_run (replicate HID_KBD_MAX_KEYS 0) ?ops = [4, 6, 7, 8, 9, 0]"
    by code_simp
  from hidKeyboard_SetKey_left_packed_set [OF z b] show ?thesis
    unfolding r .
qed

text \<open>
  C8 as stated, for every \<^verbatim>\<open>uint32_t\<close> key code, fails: after a press of code 0x04, a
  press of code 0x104 stores its low byte 0x04 in the next slot, because the comparison
  with the stored byte uses all 32 bits of the code. The array then holds 0x04 twice.
\<close>

theorem hidKeyboard_SetKey_wide_code_counterexample:
  "key_field kbd0 False = Some [0, 0, 0, 0, 0, 0] \<and>
   keys_after kbd0 [(0x04, 1), (0x104, 1)] False = Some [4, 4, 0, 0, 0, 0] \<and>
   \<not> no_dup [4, 4, 0, 0, 0, 0]"
  by code_simp

section \<open>Results: mouse orientation round trip\<close>

lemma le16_roundtrip: "le16_of (le16_bytes x) = x"
  unfolding le16_of_def le16_bytes_def
  by (rule bit_word_eqI) (auto simp: bit_simps)

lemma le32_roundtrip: "le32_of (le32_bytes x) = x"
  unfolding le32_of_def le32_bytes_def
  apply (rule bit_word_eqI)
  apply (auto simp: bit_simps not_less)
  apply (rule ccontr)
  apply (subgoal_tac "24 \<le> n")
   apply (simp add: not_less le_add_diff_inverse)
  apply arith
  done

lemma sext8: "scast (ucast (v :: 32 word) :: 8 word) = (signed_take_bit 7 v :: 32 word)"
  by (rule bit_word_eqI) (auto simp: bit_simps)

lemma sext16: "scast (ucast (v :: 32 word) :: 16 word) = (signed_take_bit 15 v :: 32 word)"
  by (rule bit_word_eqI) (auto simp: bit_simps)

lemma sext32: "signed_take_bit 31 (v :: 32 word) = v"
  by (rule bit_word_eqI) (auto simp: bit_simps)

lemma sint_stb7: "sint (signed_take_bit 7 (v::32 word)) = signed_take_bit 7 (sint v)"
  by (rule bit_eqI) (auto simp: bit_simps bit_sint_iff bit_signed_take_bit_iff min_def not_less split: if_splits)

lemma sint_stb15: "sint (signed_take_bit 15 (v::32 word)) = signed_take_bit 15 (sint v)"
  by (rule bit_eqI) (auto simp: bit_simps bit_sint_iff bit_signed_take_bit_iff min_def not_less split: if_splits)

lemma representable_id:
  assumes "w = 8 \<or> w = 16 \<or> w = 32" "representable w v"
  shows "sext_trunc w v = v"
proof -
  have "sint (sext_trunc w v) = sint v"
    using assms
    by (auto simp: sext_trunc_def representable_def sext32 sint_stb7 sint_stb15
        intro!: signed_take_bit_int_eq_self)
  then show ?thesis by (simp add: word_eq_iff_signed [where ?'a = int])
qed

lemma get_after_store:
  assumes g: "USBHID_getReportBuffer (mouse_hid_dev m) isLast = Inr (p, len)"
    and b: "pos + length bs \<le> length (dev_mem (mouse_hid_dev m))"
  shows "\<exists>m'. mouse_store m pos bs = Some (USBHID_SUCCESS, Some m') \<and>
          USBHID_getReportBuffer (mouse_hid_dev m') isLast = Inr (p, len) \<and>
          field_get (dev_mem (mouse_hid_dev m')) pos (length bs) = Some bs \<and>
          orientation m' = orientation m \<and> has_wheel m' = has_wheel m"
  using getReportBuffer_update [OF g, of "field_put (dev_mem (mouse_hid_dev m)) pos bs"] b
  by (simp add: mouse_store_def Let_def field_get_put)

lemma length_le16_bytes: "length (le16_bytes x) = 2"
  by (simp add: le16_bytes_def)

lemma length_le32_bytes: "length (le32_bytes x) = 4"
  by (simp add: le32_bytes_def)

lemma size_cases:
  fixes s :: "32 word"
  shows "s = 8 \<Longrightarrow> (ucast (s div 8) :: 8 word) = 1 \<and> s div 8 = 1"
    and "s = 16 \<Longrightarrow> (ucast (s div 8) :: 8 word) = 2 \<and> s div 8 = 2"
    and "s = 32 \<Longrightarrow> (ucast (s div 8) :: 8 word) = 4 \<and> s div 8 = 4"
  by simp_all

lemma set_then_get_value:
  assumes s: "size_f (orientation m) = 8 \<or> size_f (orientation m) = 16 \<or> size_f (orientation m) = 32"
    and a: "axisNum < count_f (orientation m)"
    and w: "\<not> (axisNum = 2 \<and> has_wheel m)"
    and i: "axis_in_buffer m axisNum isLast"
  shows "set_then_get m axisNum v isLast = Some (Inr (sext_trunc (unat (size_f (orientation m))) v))"
proof -
  from i obtain p len where
    g: "USBHID_getReportBuffer (mouse_hid_dev m) isLast = Inr (p, len)" and
    b: "p + unat (report_buf_off (orientation m))
            + unat (axisNum * (size_f (orientation m) div 8)) + unat (size_f (orientation m) div 8)
          \<le> length (dev_mem (mouse_hid_dev m))"
    by (auto simp: axis_in_buffer_def split: sum.splits)
  from a have na: "\<not> axisNum \<ge> count_f (orientation m)" by simp
  from s show ?thesis
  proof (elim disjE)
    assume e: "size_f (orientation m) = 8"
    let ?at = "p + unat (report_buf_off (orientation m)) + unat axisNum"
    from b e have "?at + length [ucast v :: 8 word] \<le> length (dev_mem (mouse_hid_dev m))" by simp
    from get_after_store [OF g this] obtain m' where
      m': "mouse_store m ?at [ucast v] = Some (USBHID_SUCCESS, Some m')"
        "USBHID_getReportBuffer (mouse_hid_dev m') isLast = Inr (p, len)"
        "field_get (dev_mem (mouse_hid_dev m')) ?at 1 = Some [ucast v]"
        "orientation m' = orientation m" "has_wheel m' = has_wheel m" by auto
    show ?thesis
      using m' e na g
      by (simp add: w set_then_get_def hidMouse_SetOrientation_def hidMouse_GetOrientation_def
          Let_def sext_trunc_def sext8)
  next
    assume e: "size_f (orientation m) = 16"
    let ?at = "p + unat (report_buf_off (orientation m)) + unat (axisNum * 2)"
    from b e have "?at + length (le16_bytes (ucast v)) \<le> length (dev_mem (mouse_hid_dev m))"
      by (simp add: length_le16_bytes)
    from get_after_store [OF g this] obtain m' where
      m': "mouse_store m ?at (le16_bytes (ucast v)) = Some (USBHID_SUCCESS, Some m')"
        "USBHID_getReportBuffer (mouse_hid_dev m') isLast = Inr (p, len)"
        "field_get (dev_mem (mouse_hid_dev m')) ?at 2 = Some (le16_bytes (ucast v))"
        "orientation m' = orientation m" "has_wheel m' = has_wheel m"
      by (auto simp: length_le16_bytes)
    show ?thesis
      using m' e na g
      by (simp add: w set_then_get_def hidMouse_SetOrientation_def hidMouse_GetOrientation_def
          Let_def sext_trunc_def sext16 le16_roundtrip)
  next
    assume e: "size_f (orientation m) = 32"
    let ?at = "p + unat (report_buf_off (orientation m)) + unat (axisNum * 4)"
    from b e have "?at + length (le32_bytes v) \<le> length (dev_mem (mouse_hid_dev m))"
      by (simp add: length_le32_bytes)
    from get_after_store [OF g this] obtain m' where
      m': "mouse_store m ?at (le32_bytes v) = Some (USBHID_SUCCESS, Some m')"
        "USBHID_getReportBuffer (mouse_hid_dev m') isLast = Inr (p, len)"
        "field_get (dev_mem (mouse_hid_dev m')) ?at 4 = Some (le32_bytes v)"
        "orientation m' = orientation m" "has_wheel m' = has_wheel m"
      by (auto simp: length_le32_bytes)
    show ?thesis
      using m' e na g
      by (simp add: w set_then_get_def hidMouse_SetOrientation_def hidMouse_GetOrientation_def
          Let_def sext_trunc_def sext32 le32_roundtrip)
  qed
qed


text \<open>
  C9. For a mouse as \<^verbatim>\<open>parse_hid_report\<close> leaves it (two orientation axes) whose
  orientation field is 8, 16 or 32 bits wide, every axis within the declared count and
  every 32-bit value \<open>v\<close>: \<^verbatim>\<open>set_orientation\<close> followed by \<^verbatim>\<open>get_orientation\<close> on the
  same buffer returns the sign-extended truncation of \<open>v\<close> to the declared width, and
  returns \<open>v\<close> itself whenever \<open>v\<close> is representable in that width.
\<close>

theorem hidMouse_orientation_roundtrip:
  assumes "size_f (orientation m) = 8 \<or> size_f (orientation m) = 16 \<or> size_f (orientation m) = 32"
    and "count_f (orientation m) = 2"
    and "axisNum < count_f (orientation m)"
    and "axis_in_buffer m axisNum isLast"
  shows "set_then_get m axisNum v isLast =
           Some (Inr (sext_trunc (unat (size_f (orientation m))) v)) \<and>
         (representable (unat (size_f (orientation m))) v \<longrightarrow>
            set_then_get m axisNum v isLast = Some (Inr v))"
proof -
  have w: "unat (size_f (orientation m)) = 8 \<or> unat (size_f (orientation m)) = 16 \<or>
           unat (size_f (orientation m)) = 32"
    using assms(1) by auto
  from assms(2,3) have "axisNum \<noteq> 2" by auto
  then have n: "\<not> (axisNum = 2 \<and> has_wheel m)" by simp
  show ?thesis
    using set_then_get_value [OF assms(1) assms(3) n assms(4), of v] representable_id [OF w, of v]
    by simp
qed

text \<open>
  The theorem on \<open>mouse0\<close> (16-bit axes, with a wheel), axis Y: 0x12345 does not fit 16
  bits and comes back as 0x2345; -3 fits and comes back unchanged.
\<close>

theorem hidMouse_orientation_roundtrip_witness:
  "set_then_get mouse0 1 0x12345 False = Some (Inr 0x2345) \<and>
   set_then_get mouse0 1 (- 3) False = Some (Inr (- 3))"
proof -
  have s: "size_f (orientation mouse0) = 8 \<or> size_f (orientation mouse0) = 16 \<or>
           size_f (orientation mouse0) = 32"
    by (simp add: mouse0_def)
  have c: "count_f (orientation mouse0) = 2"
    by (simp add: mouse0_def)
  have a: "1 < count_f (orientation mouse0)"
    by (simp add: mouse0_def)
  have i: "axis_in_buffer mouse0 1 False"
    by code_simp
  have t: "sext_trunc (unat (size_f (orientation mouse0))) 0x12345 = 0x2345"
    by code_simp
  have r: "representable (unat (size_f (orientation mouse0))) (- 3)"
    by code_simp
  have 1: "set_then_get mouse0 1 0x12345 False = Some (Inr 0x2345)"
    using hidMouse_orientation_roundtrip [OF s c a i, of "0x12345"] unfolding t by (rule conjunct1)
  have 2: "set_then_get mouse0 1 (- 3) False = Some (Inr (- 3))"
    using hidMouse_orientation_roundtrip [OF s c a i, of "- 3"] r by blast
  from 1 2 show ?thesis by (rule conjI)
qed

section \<open>Results: normalised mouse output\<close>

text \<open>
  C1. The claim: bytes 1-2 and 3-4 of the output are X and Y as little-endian
  \<^verbatim>\<open>int16\<close> with saturation. On \<open>mouse32\<close> the decoded axes are \<open>X = 70000\<close> and
  \<open>Y = -40000\<close>; \<^verbatim>\<open>hidOutput_buildMouseReport\<close> succeeds and stores their low 16 bits,
  \<open>0x1170 = 4464\<close> and \<open>0x63C0 = 25536\<close>, where saturation gives \<open>32767\<close> (bytes
  \<open>0xFF, 0x7F\<close>) and \<open>-32768\<close> (bytes \<open>0x00, 0x80\<close>). The wheel path of the same
  function clamps before it stores.
\<close>

theorem hidOutput_buildMouseReport_truncates_axes:
  "hidMouse_GetOrientation (Some mouse32) 0 False = Some (Inr 70000) \<and>
   hidMouse_GetOrientation (Some mouse32) 1 False = Some (Inr (- 40000)) \<and>
   hidOutput_buildMouseReport (Some mouse32) (Some [0, 0, 0, 0, 0, 0])
     = Some (OUT_SUCCESS, Some [0x05, 0x70, 0x11, 0xC0, 0x63, 0x00]) \<and>
   le16_bytes (sat_i16 70000) = [0xFF, 0x7F] \<and>
   le16_bytes (sat_i16 (- 40000)) = [0x00, 0x80]"
  by code_simp

section \<open>Results: report buffer toggling\<close>

lemma ucast8_le: "unat (ucast (w :: 32 word) :: 8 word) \<le> unat w"
  by (simp add: unsigned_ucast_eq take_bit_eq_mod)

lemma stored_len: "length (stored_bytes d pkt) \<le> unat (report_len d)"
  using ucast8_le [of "report_len d"] by (simp add: stored_bytes_def)

lemma fetch_step:
  assumes db: "double_buffered d" and nz: "report_len d \<noteq> 0"
  shows "\<exists>d'. USBHID_fetchReport (Some d) (good_fetch pkt) = Some (HID USBHID_SUCCESS, Some d', []) \<and>
           double_buffered d' \<and> report_len d' = report_len d \<and>
           slot_bytes d' True = slot_bytes d False \<and>
           (\<exists>cur. slot_bytes d' False = Some cur \<and>
                  take (length (stored_bytes d pkt)) cur = stored_bytes d pkt) \<and>
           slots_disjoint d'"
proof -
  from db obtain buf ep where
    buf: "report_buffer d = Some buf" "length buf = 2 * unat (report_len d)" and
    ep: "endpoint d = Some ep" and
    off: "report_buffer_last_offset d = 0 \<or> report_buffer_last_offset d = report_len d"
    by (auto simp: double_buffered_def split: option.splits)
  let ?n = "unat (report_len d)"
  let ?st = "stored_bytes d pkt"
  have n0: "?n \<noteq> 0" using nz by (simp add: unat_eq_0)
  have sl: "length ?st \<le> ?n" by (rule stored_len)
  from off show ?thesis
  proof
    assume o: "report_buffer_last_offset d = 0"
    let ?d' = "d\<lparr>report_buffer := Some (field_put buf 0 ?st),
                 endpoint := Some (ep\<lparr>data_toggle := \<not> data_toggle ep\<rparr>),
                 report_buffer_last_offset := report_len d\<rparr>"
    have f: "USBHID_fetchReport (Some d) (good_fetch pkt) = Some (HID USBHID_SUCCESS, Some ?d', [])"
      using buf ep o sl nz
      by (simp add: USBHID_fetchReport_def get_report_buffer_def usbhid_read_def good_fetch_def
          ch37x_setRetry_def ch37x_sendToken_def ch37x_readBlockData_def dev_mem_def Let_def
          stored_bytes_def)
    have 1: "double_buffered ?d'" using buf sl by (simp add: double_buffered_def field_put_def)
    have 2: "slot_bytes ?d' True = slot_bytes d False"
      using buf sl o nz
      by (simp add: slot_bytes_def get_report_buffer_def dev_mem_def field_get_def field_put_def Let_def)
    have 3: "slot_bytes ?d' False = Some (?st @ take (?n - length ?st) (drop (length ?st) buf))"
      using buf sl o nz
      by (simp add: slot_bytes_def get_report_buffer_def dev_mem_def field_get_def field_put_def Let_def)
    have 4: "slots_disjoint ?d'" using nz
      by (simp add: slots_disjoint_def get_report_buffer_def Let_def)
    show ?thesis using f 1 2 3 4 by simp
  next
    assume o: "report_buffer_last_offset d = report_len d"
    let ?d' = "d\<lparr>report_buffer := Some (field_put buf ?n ?st),
                 endpoint := Some (ep\<lparr>data_toggle := \<not> data_toggle ep\<rparr>),
                 report_buffer_last_offset := 0\<rparr>"
    have f: "USBHID_fetchReport (Some d) (good_fetch pkt) = Some (HID USBHID_SUCCESS, Some ?d', [])"
      using buf ep o sl nz
      by (simp add: USBHID_fetchReport_def get_report_buffer_def usbhid_read_def good_fetch_def
          ch37x_setRetry_def ch37x_sendToken_def ch37x_readBlockData_def dev_mem_def Let_def
          stored_bytes_def)
    have 1: "double_buffered ?d'" using buf sl by (simp add: double_buffered_def field_put_def)
    have 2: "slot_bytes ?d' True = slot_bytes d False"
      using buf sl o nz
      by (simp add: slot_bytes_def get_report_buffer_def dev_mem_def field_get_def field_put_def Let_def)
    have 3: "slot_bytes ?d' False = Some (?st @ drop (?n + length ?st) buf)"
      using buf sl o nz
      by (simp add: slot_bytes_def get_report_buffer_def dev_mem_def field_get_def field_put_def Let_def)
    have 4: "slots_disjoint ?d'" using nz
      by (simp add: slots_disjoint_def get_report_buffer_def Let_def)
    show ?thesis using f 1 2 3 4 by simp
  qed
qed

lemma fetch_reports_inv:
  assumes "double_buffered d" "report_len d \<noteq> 0"
  shows "\<exists>d'. fetch_reports d pkts = Some d' \<and> double_buffered d' \<and> report_len d' = report_len d"
  using assms
proof (induction pkts arbitrary: d)
  case Nil
  then show ?case by simp
next
  case (Cons pkt pkts)
  from fetch_step [OF Cons.prems, of pkt] obtain d1 where
    d1: "USBHID_fetchReport (Some d) (good_fetch pkt) = Some (HID USBHID_SUCCESS, Some d1, [])"
      "double_buffered d1" "report_len d1 = report_len d" by blast
  from Cons.IH [OF d1(2)] d1(3) Cons.prems(2) obtain d' where
    "fetch_reports d1 pkts = Some d'" "double_buffered d'" "report_len d' = report_len d1" by auto
  with d1 show ?case by simp
qed

lemma fetch_reports_snoc:
  "fetch_reports d (pkts @ [pkt]) =
     (case fetch_reports d pkts of None \<Rightarrow> None | Some d1 \<Rightarrow> fetch_reports d1 [pkt])"
  by (induction pkts arbitrary: d)
     (auto split: option.splits prod.splits hid_ret.splits usbHid_ErrNo_e.splits)


text \<open>
  C2, as amended. On a device with an allocated double report buffer and a non-zero
  report length, after \<open>k \<ge> 1\<close> successful \<^verbatim>\<open>USBHID_fetchReport\<close> calls the accessor
  with \<^verbatim>\<open>isLast = false\<close> returns the slot that begins with the bytes stored for the
  \<open>k\<close>-th report; the accessor with \<^verbatim>\<open>isLast = true\<close> returns the other slot, which
  shares no byte with it and holds what the \<^verbatim>\<open>isLast = false\<close> accessor returned
  before the \<open>k\<close>-th fetch (the previous report).
\<close>

theorem USBHID_fetchReport_double_buffer:
  assumes "double_buffered d" "report_len d \<noteq> 0" "pkts \<noteq> []"
  shows "\<exists>d' cur. fetch_reports d pkts = Some d' \<and>
           slot_after d pkts False = Some cur \<and>
           take (length (stored_bytes d (last pkts))) cur = stored_bytes d (last pkts) \<and>
           slot_after d pkts True = slot_after d (butlast pkts) False \<and>
           slots_disjoint d'"
proof -
  from fetch_reports_inv [OF assms(1,2), of "butlast pkts"] obtain d0 where
    d0: "fetch_reports d (butlast pkts) = Some d0" "double_buffered d0" "report_len d0 = report_len d"
    by blast
  from d0(3) assms(2) have nz: "report_len d0 \<noteq> 0" by simp
  have st: "stored_bytes d0 (last pkts) = stored_bytes d (last pkts)"
    using d0(3) by (simp add: stored_bytes_def)
  from fetch_step [OF d0(2) nz, of "last pkts"] obtain d' where
    d': "USBHID_fetchReport (Some d0) (good_fetch (last pkts)) = Some (HID USBHID_SUCCESS, Some d', [])"
      "slot_bytes d' True = slot_bytes d0 False"
      "\<exists>cur. slot_bytes d' False = Some cur \<and>
             take (length (stored_bytes d0 (last pkts))) cur = stored_bytes d0 (last pkts)"
      "slots_disjoint d'" by blast
  have "fetch_reports d pkts = fetch_reports d (butlast pkts @ [last pkts])"
    using assms(3) by simp
  also have "\<dots> = Some d'"
    using d0(1) d'(1) by (simp add: fetch_reports_snoc)
  finally show ?thesis using d0(1) d' st by (auto simp: slot_after_def)
qed

text \<open>
  The theorem on \<open>dev4\<close> after the reports \<open>[1,2,3,4]\<close> and \<open>[5,6,7,8]\<close>: the
  \<^verbatim>\<open>isLast = true\<close> slot holds what the other accessor returned after the first fetch
  alone, the first report.
\<close>

theorem USBHID_fetchReport_double_buffer_witness:
  "double_buffered dev4 \<and> report_len dev4 \<noteq> 0 \<and>
   slot_after dev4 [[1, 2, 3, 4], [5, 6, 7, 8]] True = Some [1, 2, 3, 4]"
proof -
  have db: "double_buffered dev4" by code_simp
  have nz: "report_len dev4 \<noteq> 0" by (simp add: dev4_def)
  have ne: "[[1, 2, 3, 4], [5, 6, 7, 8 :: 8 word]] \<noteq> []" by simp
  have prev: "slot_after dev4 (butlast [[1, 2, 3, 4], [5, 6, 7, 8]]) False = Some [1, 2, 3, 4]"
    by code_simp
  from USBHID_fetchReport_double_buffer [OF db nz ne]
  have "slot_after dev4 [[1, 2, 3, 4], [5, 6, 7, 8]] True
          = slot_after dev4 (butlast [[1, 2, 3, 4], [5, 6, 7, 8]]) False"
    by blast
  with db nz prev show ?thesis by simp
qed

text \<open>
  C2 as stated fails: after one successful fetch of \<open>[1,2,3,4]\<close> on \<open>dev4\<close> the
  \<^verbatim>\<open>isLast = true\<close> accessor returns the slot that still holds zeros, and the
  \<^verbatim>\<open>isLast = false\<close> accessor returns the slot with the report; after a second
  fetch the \<^verbatim>\<open>isLast = true\<close> accessor returns the first report, not the second.
\<close>

theorem USBHID_fetchReport_last_is_previous_counterexample:
  "double_buffered dev4 \<and>
   slot_after dev4 [[1, 2, 3, 4]] True = Some [0, 0, 0, 0] \<and>
   slot_after dev4 [[1, 2, 3, 4]] False = Some [1, 2, 3, 4] \<and>
   slot_after dev4 [[1, 2, 3, 4], [5, 6, 7, 8]] True = Some [1, 2, 3, 4] \<and>
   slot_after dev4 [[1, 2, 3, 4], [5, 6, 7, 8]] False = Some [5, 6, 7, 8]"
  by code_simp

section \<open>Results: configuration walk\<close>

text \<open>
  C7. The claim: for every buffer the walk accepts, no more than four interface slots
  and four endpoint slots per interface are filled, and an endpoint is appended only
  after an interface slot was opened. The walk checks \<^verbatim>\<open>bLength\<close> only. On a
  well-formed descriptor with five interfaces it stores into \<^verbatim>\<open>interfaces[4]\<close>; with
  five endpoints in one interface it stores into \<^verbatim>\<open>endpoints[4]\<close>; with an endpoint
  ahead of any interface it stores into \<^verbatim>\<open>interfaces[-1]\<close>. None of the three is
  rejected with an error code before the store.
\<close>

theorem parse_config_descriptor_table_overflow:
  "parse_config_descriptor (Some (opened_udev conf_five_interfaces)) = Inl TableOverflow \<and>
   parse_config_descriptor (Some (opened_udev conf_five_endpoints)) = Inl TableOverflow \<and>
   parse_config_descriptor (Some (opened_udev conf_endpoint_first)) = Inl TableOverflow"
  by code_simp

section \<open>Results: control transfer\<close>

lemma control_in_loop_count:
  "control_in_loop mps wLength pData t chip = Some (Inr t', pData', chip') \<Longrightarrow> 0 \<le> t \<Longrightarrow> 0 \<le> t'"
proof (induction mps wLength pData t chip rule: control_in_loop.induct)
  case (1 mps wLength pData totalReceived chip)
  from "1.prems"(1) show ?case
    apply (subst (asm) control_in_loop.simps)
    apply (simp split: if_splits option.splits prod.splits add: Let_def)
    using "1.IH" "1.prems"(2)
    apply (auto split: if_splits)
    done
qed

lemma control_before_status_count:
  assumes "SETUP_IN reqType"
    and "control_before_status udev reqType pData wLength chip = Some (Inr received, pData', chip')"
  shows "0 \<le> received"
  using assms
  using control_in_loop_count [of "ep0_max_packet udev" wLength _ 0 _ received]
  by (auto simp: control_before_status_def split: option.splits if_splits)

text \<open>
  C5. A control IN transfer that reaches the STATUS stage with \<open>received\<close> bytes from the
  DATA stage, and whose STATUS stage fails (write failure, token failure or a status
  byte other than success), returns to the caller: with success and \<open>received\<close> stored
  as the actual length when \<open>received\<close> is positive, whatever the failure was; and with
  the error of the failure (Disconnected or Stall by the status byte, the generic error
  otherwise) and the actual length untouched when no byte was delivered. The byte count
  is never negative, so these are the only two cases.
\<close>

theorem ch375_hostControlTransfer_status_tolerance:
  assumes "SETUP_IN reqType"
    and "control_before_status udev reqType pData wLength chip = Some (Inr received, pData', chip')"
    and "status_stage_failed chip'"
  shows "0 \<le> received \<and>
         outcome (ch375_hostControlTransfer udev reqType pData wLength pActualLen chip) =
           Some (if 0 < received then CH37X_HOST_SUCCESS else propagated_error chip',
                 pData',
                 if 0 < received then store_actual pActualLen received else pActualLen)"
proof
  show "0 \<le> received" using assms(1,2) by (rule control_before_status_count)
next
  show "outcome (ch375_hostControlTransfer udev reqType pData wLength pActualLen chip) =
           Some (if 0 < received then CH37X_HOST_SUCCESS else propagated_error chip',
                 pData',
                 if 0 < received then store_actual pActualLen received else pActualLen)"
    using assms
    by (auto simp: outcome_def ch375_hostControlTransfer_def control_status_stage_def
        status_stage_failed_def propagated_error_def ch37x_writeBlockData_def ch37x_sendToken_def
        split: option.splits list.splits if_splits)
qed

theorem ch375_hostControlTransfer_status_tolerance_witness:
  "SETUP_IN 0x80 \<and>
   control_before_status udev8 0x80 (Some (replicate 8 0)) 8 (ctl_in_script 0x2E) =
     Some (Inr 4, Some [0x12, 0x01, 0x00, 0x02, 0, 0, 0, 0],
           [Resp CH37X_SUCCESS 0 [], Resp CH37X_SUCCESS 0x2E []]) \<and>
   status_stage_failed [Resp CH37X_SUCCESS 0 [], Resp CH37X_SUCCESS 0x2E []] \<and>
   outcome (ch375_hostControlTransfer udev8 0x80 (Some (replicate 8 0)) 8 (Some 0) (ctl_in_script 0x2E)) =
     Some (CH37X_HOST_SUCCESS, Some [0x12, 0x01, 0x00, 0x02, 0, 0, 0, 0], Some 4) \<and>
   control_before_status udev8 0x80 None 0 (ctl_nodata_script 0x2E) =
     Some (Inr 0, None, [Resp CH37X_SUCCESS 0 [], Resp CH37X_SUCCESS 0x2E []]) \<and>
   outcome (ch375_hostControlTransfer udev8 0x80 None 0 (Some 7) (ctl_nodata_script 0x2E)) =
     Some (CH37X_HOST_STALL, None, Some 7)"
proof -
  have a: "SETUP_IN 0x80" by code_simp
  have b: "control_before_status udev8 0x80 (Some (replicate 8 0)) 8 (ctl_in_script 0x2E) =
     Some (Inr 4, Some [0x12, 0x01, 0x00, 0x02, 0, 0, 0, 0],
           [Resp CH37X_SUCCESS 0 [], Resp CH37X_SUCCESS 0x2E []])" by code_simp
  have c: "status_stage_failed [Resp CH37X_SUCCESS 0 [], Resp CH37X_SUCCESS 0x2E []]" by code_simp
  have d: "control_before_status udev8 0x80 None 0 (ctl_nodata_script 0x2E) =
     Some (Inr 0, None, [Resp CH37X_SUCCESS 0 [], Resp CH37X_SUCCESS 0x2E []])" by code_simp
  have e: "propagated_error [Resp CH37X_SUCCESS 0 [], Resp CH37X_SUCCESS 0x2E []] = CH37X_HOST_STALL"
    by code_simp
  have f: "store_actual (Some 0) 4 = Some 4" by (simp add: store_actual_def)
  from ch375_hostControlTransfer_status_tolerance [OF a b c, of "Some 0"] f
  have 1: "outcome (ch375_hostControlTransfer udev8 0x80 (Some (replicate 8 0)) 8 (Some 0) (ctl_in_script 0x2E)) =
     Some (CH37X_HOST_SUCCESS, Some [0x12, 0x01, 0x00, 0x02, 0, 0, 0, 0], Some 4)" by simp
  from ch375_hostControlTransfer_status_tolerance [OF a d c, of "Some 7"] e
  have 2: "outcome (ch375_hostControlTransfer udev8 0x80 None 0 (Some 7) (ctl_nodata_script 0x2E)) =
     Some (CH37X_HOST_STALL, None, Some 7)" by simp
  from a b c 1 d 2 show ?thesis by blast
qed

section \<open>Results: bulk and interrupt transfer\<close>




























end
